theory Spec2Isabelle
  imports Complex_Main "HOL-Library.Word"
begin

section \<open>Shared data model\<close>

text \<open>
  The utilities of \<^verbatim>\<open>util.cpp\<close> work on OpenCV values. In the buffer of a matrix a
  \<^verbatim>\<open>float\<close> is the 32-bit word of its IEEE 754 pattern. A \<^verbatim>\<open>float\<close> held in a variable
  (a vector coordinate, the running sum of \<^verbatim>\<open>calcSAD\<close>) is modelled by the real number
  it stands for, and the additions, subtractions and absolute values on such variables
  are exact (their rounding, NaN and the infinities are outside the model). A C
  \<^verbatim>\<open>int\<close> is modelled by a mathematical integer; signed overflow is undefined behaviour
  in C++ and no theorem below relies on it.
\<close>

datatype error = OutOfRange | AssertionFailed

text \<open>\<^verbatim>\<open>cv::Point2f\<close>: the two coordinates \<^verbatim>\<open>x\<close> and \<^verbatim>\<open>y\<close>.\<close>

datatype point2f = Point2f (pt_x: real) (pt_y: real)

section \<open>Median neighbour predictor (\<^verbatim>\<open>medianNeighbor\<close>)\<close>

text \<open>
  \<^verbatim>\<open>prevBlockMV[r][c]\<close> on a \<^verbatim>\<open>vector<vector<Point2f>>\<close>. \<^verbatim>\<open>operator[]\<close> does not
  check its index; an index outside the vector is undefined behaviour, which the model
  reports as \<open>OutOfRange\<close>. A negative \<^verbatim>\<open>int\<close> index converts to a huge unsigned one
  and is outside every vector.
\<close>

definition at_vec :: "'a list \<Rightarrow> int \<Rightarrow> error + 'a" where
  "at_vec xs i = (if 0 \<le> i \<and> i < int (length xs) then Inr (xs ! nat i) else Inl OutOfRange)"

definition at_grid :: "'a list list \<Rightarrow> int \<times> int \<Rightarrow> error + 'a" where
  "at_grid g rc = (case at_vec g (fst rc) of Inl e \<Rightarrow> Inl e | Inr row \<Rightarrow> at_vec row (snd rc))"

text \<open>The reads of one branch happen in order; the first one out of range ends the call.\<close>

fun read_all :: "'a list list \<Rightarrow> (int \<times> int) list \<Rightarrow> error + 'a list" where
  "read_all g [] = Inr []"
| "read_all g (rc # rcs) =
     (case at_grid g rc of
        Inl e \<Rightarrow> Inl e
      | Inr v \<Rightarrow> (case read_all g rcs of Inl e \<Rightarrow> Inl e | Inr vs \<Rightarrow> Inr (v # vs)))"

text \<open>
  The \<^verbatim>\<open>if\<close> cascade of \<^verbatim>\<open>medianNeighbor\<close>: the (row, column) index pairs assigned to
  \<^verbatim>\<open>neighborMV[0]\<close>, \<^verbatim>\<open>neighborMV[1]\<close>, \<^verbatim>\<open>neighborMV[2]\<close>, in this order.
\<close>

definition selectNeighbors :: "int \<Rightarrow> int \<Rightarrow> (int \<times> int) list" where
  "selectNeighbors rowpos colpos =
     (if rowpos - 1 < 0 \<and> colpos - 1 < 0 then
        [(rowpos, colpos + 1), (rowpos + 1, colpos), (rowpos + 1, colpos + 1)]
      else if colpos - 1 < 0 then
        [(rowpos - 1, colpos), (rowpos - 1, colpos + 1), (rowpos, colpos + 1)]
      else if rowpos - 1 < 0 then
        [(rowpos, colpos - 1), (rowpos + 1, colpos - 1), (rowpos + 1, colpos)]
      else
        [(rowpos - 1, colpos - 1), (rowpos - 1, colpos), (rowpos, colpos - 1)])"

text \<open>
  \<^verbatim>\<open>std::nth_element(first, nth, last)\<close> followed by \<^verbatim>\<open>*nth\<close>: the element that stands
  at position \<open>n\<close> once the range is sorted.
\<close>

definition nth_element :: "real list \<Rightarrow> nat \<Rightarrow> real" where
  "nth_element xs n = sort xs ! n"

text \<open>
  \<^verbatim>\<open>x_coord\<close> and \<^verbatim>\<open>y_coord\<close> are constructed as \<^verbatim>\<open>vector<float>(3, 0.0)\<close>, three zeros,
  and the loop over \<^verbatim>\<open>neighborMV\<close> appends the three coordinates with
  \<^verbatim>\<open>push_back\<close>: both vectors hold six values. The selected position is
  \<^verbatim>\<open>begin() + size() / 2\<close>.
\<close>

definition medianOf :: "point2f list \<Rightarrow> point2f" where
  "medianOf neighborMV =
     (let x_coord = replicate 3 0 @ map pt_x neighborMV;
          y_coord = replicate 3 0 @ map pt_y neighborMV
      in Point2f (nth_element x_coord (length x_coord div 2))
                 (nth_element y_coord (length y_coord div 2)))"

definition medianNeighbor :: "int \<Rightarrow> int \<Rightarrow> point2f list list \<Rightarrow> error + point2f" where
  "medianNeighbor rowpos colpos prevBlockMV =
     (case read_all prevBlockMV (selectNeighbors rowpos colpos) of
        Inl e \<Rightarrow> Inl e
      | Inr neighborMV \<Rightarrow> Inr (medianOf neighborMV))"

section \<open>Matrices and memory\<close>

text \<open>
  A \<^verbatim>\<open>cv::Mat\<close> is a header (size, element type, data pointer) over a pixel buffer
  that several headers may share: assigning a \<^verbatim>\<open>Mat\<close> copies the header only. The
  buffers live in an explicit memory, indexed by address; address 0 is the null
  pointer of an empty matrix. A buffer is modelled by its rows of 4-byte cells: cell
  \<open>k\<close> of row \<open>i\<close> is the 32-bit word at byte offset \<open>4 * k\<close> of the row. Matrices here
  have two dimensions and one channel.
\<close>

type_synonym addr = nat
type_synonym cells = "int \<Rightarrow> int \<Rightarrow> 32 word"

record mat =
  rows :: int
  cols :: int
  mtype :: int
  data :: addr

record memory =
  buffers :: "addr \<Rightarrow> cells"
  next_free :: addr

text \<open>
  The type codes of OpenCV: \<^verbatim>\<open>CV_32F = 5\<close>, \<^verbatim>\<open>CV_64F = 6\<close>, and one channel adds
  nothing to the depth code.
\<close>

definition CV_32FC1 :: int where "CV_32FC1 = 5"
definition CV_64FC1 :: int where "CV_64FC1 = 6"

subsection \<open>IEEE 754 values\<close>

text \<open>
  The real number a bit pattern stands for, in a binary format with \<open>eb\<close> exponent
  bits and \<open>mb\<close> fraction bits (8 and 23 for \<^verbatim>\<open>float\<close>, 11 and 52 for \<^verbatim>\<open>double\<close>):
  sign, biased exponent, fraction; exponent 0 is the subnormal range. A pattern whose
  exponent bits are all one (an infinity or a NaN) stands for no real number; the
  formula gives it a value all the same, and nothing below uses it.
\<close>

definition ieee_val :: "nat \<Rightarrow> nat \<Rightarrow> nat \<Rightarrow> real" where
  "ieee_val eb mb n =
     (let s = (n div 2 ^ (eb + mb)) mod 2;
          e = (n div 2 ^ mb) mod 2 ^ eb;
          m = n mod 2 ^ mb;
          bias = 2 ^ (eb - 1) - 1;
          mag = (if e = 0 then real m * 2 powi (1 - int bias - int mb)
                 else real (2 ^ mb + m) * 2 powi (int e - int bias - int mb))
      in if s = 1 then - mag else mag)"

text \<open>
  The bit pattern of a real number, rounded to the nearest value of the format, ties
  to the even fraction (the rounding of the arithmetic), overflow to infinity.
\<close>

definition round_even :: "real \<Rightarrow> int" where
  "round_even v =
     (let f = \<lfloor>v\<rfloor>
      in if v - of_int f < 1 / 2 then f
         else if 1 / 2 < v - of_int f then f + 1
         else if even f then f else f + 1)"

definition ieee_enc :: "nat \<Rightarrow> nat \<Rightarrow> real \<Rightarrow> nat" where
  "ieee_enc eb mb v =
     (if v = 0 then 0
      else
        let bias = 2 ^ (eb - 1) - 1;
            ex = max (1 - int bias) \<lfloor>log 2 \<bar>v\<bar>\<rfloor>;
            q = round_even (\<bar>v\<bar> / 2 powi (ex - int mb));
            body = min (nat ((ex + int bias - 1) * 2 ^ mb + q)) ((2 ^ eb - 1) * 2 ^ mb)
        in (if v < 0 then 2 ^ (eb + mb) else 0) + body)"

text \<open>
  A \<^verbatim>\<open>float\<close> occupies one cell. A \<^verbatim>\<open>double\<close> occupies two, the low half first (the
  byte order of the x86 and ARM machines OpenCV runs on).
\<close>

definition float_val :: "32 word \<Rightarrow> real" where
  "float_val w = ieee_val 8 23 (unat w)"

definition float_enc :: "real \<Rightarrow> 32 word" where
  "float_enc v = word_of_nat (ieee_enc 8 23 v)"

definition double_val :: "32 word \<Rightarrow> 32 word \<Rightarrow> real" where
  "double_val lo hi = ieee_val 11 52 (unat lo + 2 ^ 32 * unat hi)"

definition double_lo :: "real \<Rightarrow> 32 word" where
  "double_lo v = word_of_nat (ieee_enc 11 52 v mod 2 ^ 32)"

definition double_hi :: "real \<Rightarrow> 32 word" where
  "double_hi v = word_of_nat (ieee_enc 11 52 v div 2 ^ 32)"

subsection \<open>Elements and accessors\<close>

text \<open>
  Element (i, j) of a matrix of type \<open>t\<close>: the \<^verbatim>\<open>double\<close> in cells \<open>2 * j\<close> and
  \<open>2 * j + 1\<close> of row \<open>i\<close> for \<^verbatim>\<open>CV_64FC1\<close>, the \<^verbatim>\<open>float\<close> in cell \<open>j\<close> otherwise. The
  second function writes a whole buffer from the values of its elements.
\<close>

definition elem :: "int \<Rightarrow> cells \<Rightarrow> int \<Rightarrow> int \<Rightarrow> real" where
  "elem t p i j =
     (if t = CV_64FC1 then double_val (p i (2 * j)) (p i (2 * j + 1)) else float_val (p i j))"

definition encode :: "int \<Rightarrow> (int \<Rightarrow> int \<Rightarrow> real) \<Rightarrow> cells" where
  "encode t f =
     (\<lambda>i k. if t = CV_64FC1
            then (if k mod 2 = 0 then double_lo (f i (k div 2)) else double_hi (f i (k div 2)))
            else float_enc (f i k))"

definition elem_at :: "memory \<Rightarrow> mat \<Rightarrow> int \<Rightarrow> int \<Rightarrow> real" where
  "elem_at h m i j = elem (mtype m) (buffers h (data m)) i j"

text \<open>
  \<^verbatim>\<open>m.at<float>(i, j)\<close>: the \<^verbatim>\<open>float\<close> at byte offset \<open>4 * j\<close> of row \<open>i\<close>, whatever
  the type of the matrix (the accessor does not check it in a release build). For a
  \<^verbatim>\<open>CV_32FC1\<close> matrix this is element (i, j); for a \<^verbatim>\<open>CV_64FC1\<close> matrix it is one half
  of the \<^verbatim>\<open>double\<close> at column \<open>j div 2\<close>, read as a \<^verbatim>\<open>float\<close>.
\<close>

definition at_float :: "memory \<Rightarrow> mat \<Rightarrow> int \<Rightarrow> int \<Rightarrow> real" where
  "at_float h m i j = float_val (buffers h (data m) i j)"

text \<open>The elements of an \<open>nr\<close> x \<open>nc\<close> matrix, row by row.\<close>

definition elements :: "int \<Rightarrow> int \<Rightarrow> int \<Rightarrow> cells \<Rightarrow> real list list" where
  "elements t nr nc p = map (\<lambda>i. map (\<lambda>j. elem t p i j) [0..nc - 1]) [0..nr - 1]"

definition mat_elements :: "memory \<Rightarrow> mat \<Rightarrow> real list list" where
  "mat_elements h m = elements (mtype m) (rows m) (cols m) (buffers h (data m))"

section \<open>Block cost evaluator (\<^verbatim>\<open>calcSAD\<close>)\<close>

text \<open>
  C's \<^verbatim>\<open>round\<close> followed by the conversion to \<^verbatim>\<open>int\<close>: the nearest integer, halves
  away from zero.
\<close>

definition c_round :: "real \<Rightarrow> int" where
  "c_round v = (if 0 \<le> v then \<lfloor>v + 1 / 2\<rfloor> else \<lceil>v - 1 / 2\<rceil>)"

text \<open>\<^verbatim>\<open>for (int i = i0; i < n; i++) s = body(i, s);\<close>\<close>

function for_loop :: "int \<Rightarrow> int \<Rightarrow> (int \<Rightarrow> 'a \<Rightarrow> 'a) \<Rightarrow> 'a \<Rightarrow> 'a" where
  "for_loop i n body s = (if i < n then for_loop (i + 1) n body (body i s) else s)"
  by pat_completeness auto
termination
  by (relation "measure (\<lambda>(i, n, body, s). nat (n - i))") auto

declare for_loop.simps [simp del]

text \<open>
  \<^verbatim>\<open>BLOCK_SIZE\<close> is a macro of \<^verbatim>\<open>constants.hpp\<close>, which is not among the sources;
  it is a parameter. The parameter \<^verbatim>\<open>curr\<close> of the source is \<open>curr_mat\<close> here. Both
  \<^verbatim>\<open>CV_Assert\<close>s come first; then the two nested loops add to \<^verbatim>\<open>SAD\<close>.
\<close>

definition calcSAD ::
  "int \<Rightarrow> memory \<Rightarrow> mat \<Rightarrow> int \<Rightarrow> int \<Rightarrow> mat \<Rightarrow> real \<Rightarrow> real \<Rightarrow> error + real" where
  "calcSAD BLOCK_SIZE h prevBlock rowpos colpos curr_mat dx dy =
     (if mtype prevBlock \<noteq> mtype curr_mat then Inl AssertionFailed
      else if \<not> (mtype prevBlock = CV_32FC1 \<or> mtype prevBlock = CV_64FC1)
        then Inl AssertionFailed
      else
        let y = rowpos * BLOCK_SIZE;
            x = colpos * BLOCK_SIZE;
            dx_int = c_round dx;
            dy_int = c_round dy
        in Inr (for_loop 0 (rows prevBlock) (\<lambda>i SAD.
                  for_loop 0 (cols prevBlock) (\<lambda>j SAD.
                    if i + y + dy_int < 0 \<or> i + y + dy_int \<ge> rows curr_mat
                       \<or> j + x + dx_int < 0 \<or> j + x + dx_int \<ge> cols curr_mat
                    then SAD + at_float h prevBlock i j
                    else SAD + \<bar>at_float h prevBlock i j
                                 - at_float h curr_mat (i + y + dy_int) (j + x + dx_int)\<bar>)
                  SAD) 0))"

section \<open>Phase correlation estimator (\<^verbatim>\<open>phaseCorr\<close>)\<close>

text \<open>\<^verbatim>\<open>Mat::empty()\<close>, the comparison of \<^verbatim>\<open>Mat::size\<close>, and a default \<^verbatim>\<open>Mat\<close>.\<close>

definition mat_empty :: "mat \<Rightarrow> bool" where
  "mat_empty m = (data m = 0 \<or> rows m * cols m = 0)"

definition same_size :: "mat \<Rightarrow> mat \<Rightarrow> bool" where
  "same_size a b = (rows a = rows b \<and> cols a = cols b)"

definition no_mat :: mat where
  "no_mat = \<lparr>rows = 0, cols = 0, mtype = 0, data = 0\<rparr>"

definition store :: "memory \<Rightarrow> addr \<Rightarrow> cells \<Rightarrow> memory" where
  "store h a p = h\<lparr>buffers := (buffers h)(a := p)\<rparr>"

text \<open>
  \<^verbatim>\<open>Mat::create\<close>, which every OpenCV function calls on its output: a matrix that
  already has the requested size and type keeps its buffer, any other gets a new one.
\<close>

definition create :: "memory \<Rightarrow> mat \<Rightarrow> int \<Rightarrow> int \<Rightarrow> int \<Rightarrow> memory \<times> mat" where
  "create h dst r c t =
     (if data dst \<noteq> 0 \<and> rows dst = r \<and> cols dst = c \<and> mtype dst = t then (h, dst)
      else (h\<lparr>next_free := next_free h + 1\<rparr>,
            \<lparr>rows = r, cols = c, mtype = t, data = next_free h\<rparr>))"

text \<open>
  \<^verbatim>\<open>copyMakeBorder(src, dst, top, bottom, left, right, BORDER_CONSTANT, Scalar::all(0))\<close>
  and \<^verbatim>\<open>multiply(src1, src2, dst)\<close> of OpenCV, on arguments they accept: the output
  is created, then written. The copy moves the cells of the elements (two per element
  for \<^verbatim>\<open>CV_64FC1\<close>) and fills the border with zero cells, the pattern of 0.0 in both
  formats. The product of two elements is rounded to the format of the matrix.
\<close>

definition cells_per_elem :: "int \<Rightarrow> int" where
  "cells_per_elem t = (if t = CV_64FC1 then 2 else 1)"

definition copyMakeBorder ::
  "memory \<Rightarrow> mat \<Rightarrow> mat \<Rightarrow> int \<Rightarrow> int \<Rightarrow> int \<Rightarrow> int \<Rightarrow> memory \<times> mat" where
  "copyMakeBorder h src dst top_n bottom_n left_n right_n =
     (let p = buffers h (data src);
          w = cells_per_elem (mtype src);
          (h1, dst1) =
            create h dst (rows src + top_n + bottom_n) (cols src + left_n + right_n) (mtype src)
      in (store h1 (data dst1)
            (\<lambda>i k. if top_n \<le> i \<and> i < top_n + rows src
                       \<and> left_n * w \<le> k \<and> k < (left_n + cols src) * w
                    then p (i - top_n) (k - left_n * w) else 0),
          dst1))"

definition multiply :: "memory \<Rightarrow> mat \<Rightarrow> mat \<Rightarrow> mat \<Rightarrow> memory \<times> mat" where
  "multiply h src1 src2 dst =
     (let t = mtype src1;
          p1 = buffers h (data src1);
          p2 = buffers h (data src2);
          (h1, dst1) = create h dst (rows src1) (cols src1) t
      in (store h1 (data dst1) (encode t (\<lambda>i j. elem t p1 i j * elem t p2 i j)), dst1))"

text \<open>
  What \<^verbatim>\<open>phaseCorr\<close> calls and the sources do not define is a parameter:
  \<^item> \<open>getOptimalDFTSize\<close>, of OpenCV;
  \<^item> \<open>correlationSurface e1 e2\<close>: the values of the elements of the local matrix
    \<^verbatim>\<open>C\<close> after \<^verbatim>\<open>dft\<close>, \<^verbatim>\<open>mulSpectrums\<close>, \<^verbatim>\<open>magSpectrums\<close>, \<^verbatim>\<open>divSpectrums\<close>, \<^verbatim>\<open>idft\<close>
    and \<^verbatim>\<open>fftShift\<close>, computed from the elements of \<^verbatim>\<open>padded1\<close> and \<^verbatim>\<open>padded2\<close>.
    These calls write the local matrices \<^verbatim>\<open>FFT1\<close>, \<^verbatim>\<open>FFT2\<close>, \<^verbatim>\<open>P\<close>, \<^verbatim>\<open>Pm\<close>, \<^verbatim>\<open>C\<close>
    only, and \<^verbatim>\<open>C\<close> has the type of the patches;
  \<^item> \<open>maxLoc es\<close>: the maximum location \<^verbatim>\<open>minMaxLoc\<close> reports for a matrix with the
    elements \<open>es\<close>, as \<^verbatim>\<open>Point(x, y)\<close>;
  \<^item> \<open>weightedCentroid es peakLoc size\<close>, declared in \<^verbatim>\<open>opencv_methods.hpp\<close>: the
    centroid it returns and the value it stores through \<^verbatim>\<open>response\<close> when that pointer
    is not null.
\<close>

record cv_ops =
  getOptimalDFTSize :: "int \<Rightarrow> int"
  correlationSurface :: "real list list \<Rightarrow> real list list \<Rightarrow> int \<Rightarrow> int \<Rightarrow> real"
  maxLoc :: "real list list \<Rightarrow> int \<times> int"
  weightedCentroid :: "real list list \<Rightarrow> int \<times> int \<Rightarrow> int \<times> int \<Rightarrow> point2f \<times> real"

definition point_minus :: "point2f \<Rightarrow> point2f \<Rightarrow> point2f" where
  "point_minus p q = Point2f (pt_x p - pt_x q) (pt_y p - pt_y q)"

text \<open>
  \<^verbatim>\<open>C.at<float>(peakLoc) = 0\<close>: the cell \<^verbatim>\<open>peakLoc.x\<close> of row \<^verbatim>\<open>peakLoc.y\<close> receives
  the pattern of the \<^verbatim>\<open>float\<close> 0.0, whatever the type of \<^verbatim>\<open>C\<close>.
\<close>

definition zero_at :: "cells \<Rightarrow> int \<times> int \<Rightarrow> cells" where
  "zero_at C peakLoc = (\<lambda>i k. if i = snd peakLoc \<and> k = fst peakLoc then 0 else C i k)"

text \<open>
  The model follows the phases of \<^verbatim>\<open>phaseCorr\<close>, one definition per phase. First
  the padding (lines 61 to 81): when the optimal size differs from the size of the
  patches, the patches and the window (if there is one) are copied into new, larger
  matrices; otherwise \<^verbatim>\<open>padded1 = src1; padded2 = src2; paddedWin = window;\<close> copy
  the headers, and the buffers are shared.
\<close>

definition padInputs :: "cv_ops \<Rightarrow> memory \<Rightarrow> mat \<Rightarrow> mat \<Rightarrow> mat \<Rightarrow> memory \<times> mat \<times> mat \<times> mat" where
  "padInputs ops h src1 src2 window =
     (let M = getOptimalDFTSize ops (rows src1);
          N = getOptimalDFTSize ops (cols src1)
      in if M \<noteq> rows src1 \<or> N \<noteq> cols src1 then
           let (h1, padded1) =
                 copyMakeBorder h src1 no_mat 0 (M - rows src1) 0 (N - cols src1);
               (h2, padded2) =
                 copyMakeBorder h1 src2 no_mat 0 (M - rows src2) 0 (N - cols src2)
           in if \<not> mat_empty window then
                let (h3, paddedWin) =
                      copyMakeBorder h2 window no_mat 0 (M - rows window) 0 (N - cols window)
                in (h3, padded1, padded2, paddedWin)
              else (h2, padded1, padded2, no_mat)
         else (h, src1, src2, window))"

text \<open>
  The window multiplication (lines 86 to 91):
  \<^verbatim>\<open>multiply(paddedWin, padded1, padded1); multiply(paddedWin, padded2, padded2);\<close>
\<close>

definition applyWindow :: "memory \<Rightarrow> mat \<Rightarrow> mat \<Rightarrow> mat \<Rightarrow> memory \<times> mat \<times> mat" where
  "applyWindow h paddedWin padded1 padded2 =
     (if \<not> mat_empty paddedWin then
        let (h1, padded1) = multiply h paddedWin padded1 padded1;
            (h2, padded2) = multiply h1 paddedWin padded2 padded2
        in (h2, padded1, padded2)
      else (h, padded1, padded2))"

text \<open>
  The two peaks (lines 107 to 117), on the buffer \<open>C\<close> of an \<open>M\<close> x \<open>N\<close> matrix of type
  \<open>t\<close>. The argument \<open>response\<close> is \<open>None\<close> for the null pointer (the default) and
  \<open>Some v\<close> for a pointer to a double holding \<open>v\<close>; both calls of
  \<^verbatim>\<open>weightedCentroid\<close> receive the same pointer. A variable assigned twice in the
  source is bound twice.
\<close>

definition locatePeaks ::
  "cv_ops \<Rightarrow> int \<Rightarrow> int \<Rightarrow> int \<Rightarrow> cells \<Rightarrow> real option \<Rightarrow> point2f \<times> point2f \<times> real option" where
  "locatePeaks ops t M N C response =
     (let peakLoc = maxLoc ops (elements t M N C);
          (t1, r1) = weightedCentroid ops (elements t M N C) peakLoc (5, 5);
          response = map_option (\<lambda>_. r1) response;
          C = zero_at C peakLoc;
          peakLoc = maxLoc ops (elements t M N C);
          (t2, r2) = weightedCentroid ops (elements t M N C) peakLoc (5, 5);
          response = map_option (\<lambda>_. r2) response
      in (t1, t2, response))"

text \<open>
  \<^verbatim>\<open>phaseCorr(_src1, _src2, _window, response)\<close>: the five assertions, the phases
  above, the division of \<^verbatim>\<open>*response\<close> by \<^verbatim>\<open>M * N\<close> and the two shifts relative
  to the centre. The result is the memory after the call, the returned vector and the
  final content of \<^verbatim>\<open>*response\<close>.
\<close>

definition phaseCorr ::
  "cv_ops \<Rightarrow> memory \<Rightarrow> mat \<Rightarrow> mat \<Rightarrow> mat \<Rightarrow> real option
     \<Rightarrow> error + (memory \<times> point2f list \<times> real option)" where
  "phaseCorr ops h src1 src2 window response =
     (if mtype src1 \<noteq> mtype src2 then Inl AssertionFailed
      else if \<not> (mtype src1 = CV_32FC1 \<or> mtype src1 = CV_64FC1) then Inl AssertionFailed
      else if \<not> same_size src1 src2 then Inl AssertionFailed
      else if \<not> mat_empty window \<and> mtype src1 \<noteq> mtype window then Inl AssertionFailed
      else if \<not> mat_empty window \<and> \<not> same_size src1 window then Inl AssertionFailed
      else
        let M = getOptimalDFTSize ops (rows src1);
            N = getOptimalDFTSize ops (cols src1);
            (h3, padded1, padded2, paddedWin) = padInputs ops h src1 src2 window;
            (h5, padded1, padded2) = applyWindow h3 paddedWin padded1 padded2;
            C = encode (mtype src1)
                  (correlationSurface ops (mat_elements h5 padded1) (mat_elements h5 padded2));
            (t1, t2, response) = locatePeaks ops (mtype src1) M N C response;
            response = map_option (\<lambda>v. v / real_of_int (M * N)) response;
            center = Point2f (real_of_int (cols padded1) / 2) (real_of_int (rows padded1) / 2)
        in Inr (h5, [point_minus center t1, point_minus center t2], response))"

section \<open>Report sink (\<^verbatim>\<open>writeToFile\<close>)\<close>

text \<open>
  A \<^verbatim>\<open>std::ofstream\<close>: whether a file is open behind it, whether \<^verbatim>\<open>failbit\<close> or
  \<^verbatim>\<open>badbit\<close> is set (what \<^verbatim>\<open>!file\<close> tests), and the characters the file has received.
  An \<^verbatim>\<open>ofstream\<close> constructed with a name that cannot be opened has \<^verbatim>\<open>failbit\<close> set;
  one that was never opened, or was closed, has no file and no error flag.
\<close>

record ofstream =
  is_open :: bool
  failed :: bool
  sink :: string

datatype outcome = Returned | Exited int

text \<open>
  \<^verbatim>\<open>file << s\<close>: nothing happens on a stream in a failed state; with no file open the
  characters cannot be written and \<^verbatim>\<open>badbit\<close> is set; otherwise they are appended.
\<close>

definition put :: "ofstream \<Rightarrow> string \<Rightarrow> ofstream" where
  "put f s =
     (if failed f then f
      else if \<not> is_open f then f\<lparr>failed := True\<rparr>
      else f\<lparr>sink := sink f @ s\<rparr>)"

text \<open>The decimal text \<^verbatim>\<open><<\<close> produces for the integer \<^verbatim>\<open>duration.count()\<close>.\<close>

definition digit_char :: "nat \<Rightarrow> char" where
  "digit_char d = ''0123456789'' ! d"

function show_nat :: "nat \<Rightarrow> string" where
  "show_nat n =
     (if n < 10 then [digit_char n] else show_nat (n div 10) @ [digit_char (n mod 10)])"
  by pat_completeness auto
termination
  by (relation "measure id") auto

declare show_nat.simps [simp del]

definition show_int :: "int \<Rightarrow> string" where
  "show_int i = (if i < 0 then CHR ''-'' # show_nat (nat (- i)) else show_nat (nat i))"

text \<open>
  The result is how the call ends (\<^verbatim>\<open>exit(-1)\<close> or a return), the standard output
  and the stream afterwards.
\<close>

definition writeToFile :: "string \<Rightarrow> ofstream \<Rightarrow> int \<Rightarrow> outcome \<times> string \<times> ofstream" where
  "writeToFile cout file duration =
     (if failed file then (Exited (- 1), cout @ ''Could not open the file\<newline>'', file)
      else (Returned, cout,
            put (put (put file ''Interpolated frame in :'') (show_int duration))
              '' milliseconds \<newline>''))"

section \<open>The specification's reading\<close>

text \<open>
  The specification describes the components in its own words. Its notions are written
  down here as the specification has them, to be compared with the code.
\<close>

subsection \<open>Median neighbour predictor\<close>

text \<open>
  A table of neighbour directions per position class, and the median of three values
  per coordinate.
\<close>

datatype direction =
  Above | Below | Left | Right | AboveLeft | AboveRight | BelowLeft | BelowRight

fun neighborAt :: "int \<times> int \<Rightarrow> direction \<Rightarrow> int \<times> int" where
  "neighborAt (r, c) Above = (r - 1, c)"
| "neighborAt (r, c) Below = (r + 1, c)"
| "neighborAt (r, c) Left = (r, c - 1)"
| "neighborAt (r, c) Right = (r, c + 1)"
| "neighborAt (r, c) AboveLeft = (r - 1, c - 1)"
| "neighborAt (r, c) AboveRight = (r - 1, c + 1)"
| "neighborAt (r, c) BelowLeft = (r + 1, c - 1)"
| "neighborAt (r, c) BelowRight = (r + 1, c + 1)"

definition caseTable :: "int \<Rightarrow> int \<Rightarrow> direction list" where
  "caseTable rowpos colpos =
     (if rowpos = 0 \<and> colpos = 0 then [Right, Below, BelowRight]
      else if colpos = 0 \<and> rowpos > 0 then [Above, AboveRight, Right]
      else if rowpos = 0 \<and> colpos > 0 then [Left, BelowLeft, Below]
      else [AboveLeft, Above, Left])"

definition median3 :: "real \<Rightarrow> real \<Rightarrow> real \<Rightarrow> real" where
  "median3 a b c = sort [a, b, c] ! 1"

definition perCoordinateMedian :: "point2f \<Rightarrow> point2f \<Rightarrow> point2f \<Rightarrow> point2f" where
  "perCoordinateMedian p q r =
     Point2f (median3 (pt_x p) (pt_x q) (pt_x r)) (median3 (pt_y p) (pt_y q) (pt_y r))"

text \<open>
  A motion field with \<open>nrows\<close> rows of \<open>ncols\<close> vectors each, as the block grid of a
  frame is.
\<close>

definition rectangular :: "'a list list \<Rightarrow> nat \<Rightarrow> nat \<Rightarrow> bool" where
  "rectangular g nrows ncols = (length g = nrows \<and> list_all (\<lambda>row. length row = ncols) g)"

subsection \<open>Block cost evaluator\<close>

text \<open>
  The target-frame coordinate of block pixel (i, j), whether a coordinate lies inside
  the frame, the pixels of the block, those whose target coordinate falls outside the
  frame under a displacement, and the absolute difference between the reference pixel
  and its target sample.
\<close>

definition targetRow :: "int \<Rightarrow> int \<Rightarrow> real \<Rightarrow> int \<Rightarrow> int" where
  "targetRow BLOCK_SIZE blockRowpos dy i = i + blockRowpos * BLOCK_SIZE + c_round dy"

definition targetCol :: "int \<Rightarrow> int \<Rightarrow> real \<Rightarrow> int \<Rightarrow> int" where
  "targetCol BLOCK_SIZE blockColpos dx j = j + blockColpos * BLOCK_SIZE + c_round dx"

definition insideFrame :: "mat \<Rightarrow> int \<Rightarrow> int \<Rightarrow> bool" where
  "insideFrame frame r c = (0 \<le> r \<and> r < rows frame \<and> 0 \<le> c \<and> c < cols frame)"




text \<open>
  The cost as the specification defines it, over the pixels of the matrices (their
  elements, whatever their type): the sum over every block pixel of the absolute
  difference to the target pixel when the target coordinate is inside the frame, and
  of the reference pixel itself when it is outside.
\<close>

definition elementwiseCost ::
  "int \<Rightarrow> memory \<Rightarrow> mat \<Rightarrow> int \<Rightarrow> int \<Rightarrow> mat \<Rightarrow> real \<Rightarrow> real \<Rightarrow> real" where
  "elementwiseCost B h prevBlock rowpos colpos curr_mat dx dy =
     (\<Sum>i = 0..<rows prevBlock. \<Sum>j = 0..<cols prevBlock.
        if insideFrame curr_mat (targetRow B rowpos dy i) (targetCol B colpos dx j)
        then \<bar>elem_at h prevBlock i j
               - elem_at h curr_mat (targetRow B rowpos dy i) (targetCol B colpos dx j)\<bar>
        else elem_at h prevBlock i j)"

subsection \<open>Phase correlation estimator\<close>

text \<open>
  The constraints of the specification: both patches have identical dimensions and
  numeric type, 32- or 64-bit float, and a window that is supplied (a matrix that is
  not empty) matches their dimensions and type.
\<close>

definition phaseCorr_precondition :: "mat \<Rightarrow> mat \<Rightarrow> mat \<Rightarrow> bool" where
  "phaseCorr_precondition patchA patchB window =
     (rows patchA = rows patchB \<and> cols patchA = cols patchB
      \<and> mtype patchA = mtype patchB
      \<and> (mtype patchA = CV_32FC1 \<or> mtype patchA = CV_64FC1)
      \<and> (\<not> mat_empty window \<longrightarrow>
            rows window = rows patchA \<and> cols window = cols patchA
            \<and> mtype window = mtype patchA))"

text \<open>
  Steps 1 and 2 of the specification, on the elements: the patch padded with zeros
  at the bottom and on the right to \<open>M\<close> x \<open>N\<close>, and, when a window is supplied,
  multiplied elementwise by the window padded in the same way; a product is a value
  of the format of the patch, the exact product rounded.
\<close>

definition rounded :: "int \<Rightarrow> real \<Rightarrow> real" where
  "rounded t v =
     (if t = CV_64FC1 then ieee_val 11 52 (ieee_enc 11 52 v) else ieee_val 8 23 (ieee_enc 8 23 v))"

definition preparedPatch :: "memory \<Rightarrow> mat \<Rightarrow> mat \<Rightarrow> int \<Rightarrow> int \<Rightarrow> real list list" where
  "preparedPatch h patch window M N =
     map (\<lambda>i. map (\<lambda>j.
        let s = (if i < rows patch \<and> j < cols patch then elem_at h patch i j else 0);
            w = (if i < rows window \<and> j < cols window then elem_at h window i j else 0)
        in if mat_empty window then s else rounded (mtype patch) (w * s))
       [0..N - 1]) [0..M - 1]"

text \<open>
  The buffers of a call, as the specification has them: the two patches and a
  supplied window are allocated matrices, and no two of them share a buffer.
\<close>

definition separate_buffers :: "memory \<Rightarrow> mat \<Rightarrow> mat \<Rightarrow> mat \<Rightarrow> bool" where
  "separate_buffers h src1 src2 window =
     (0 < data src1 \<and> data src1 < next_free h \<and> 0 < data src2 \<and> data src2 < next_free h
      \<and> data src1 \<noteq> data src2
      \<and> (mat_empty window
         \<or> (data window < next_free h \<and> data window \<noteq> data src1 \<and> data window \<noteq> data src2)))"

text \<open>
  The value at row \<open>i\<close>, column \<open>j\<close> of a matrix given by its elements (0 outside),
  and the positions of the matrix in row-major order.
\<close>

definition value_at :: "real list list \<Rightarrow> int \<Rightarrow> int \<Rightarrow> real" where
  "value_at es i j =
     (if 0 \<le> i \<and> i < int (length es) \<and> 0 \<le> j \<and> j < int (length (es ! nat i))
      then es ! nat i ! nat j else 0)"

definition width :: "real list list \<Rightarrow> int" where
  "width es = (case es of [] \<Rightarrow> 0 | r # _ \<Rightarrow> int (length r))"

definition positions :: "real list list \<Rightarrow> (int \<times> int) list" where
  "positions es = List.product [0..int (length es) - 1] [0..width es - 1]"

text \<open>
  Modelled from the spec: \<^verbatim>\<open>magSpectrums\<close>, \<^verbatim>\<open>divSpectrums\<close> and \<^verbatim>\<open>fftShift\<close> are declared
  in \<^verbatim>\<open>opencv_methods.hpp\<close>, which is not among the sources (\<^verbatim>\<open>dft\<close>, \<^verbatim>\<open>mulSpectrums\<close>
  and \<^verbatim>\<open>idft\<close> are OpenCV's). Steps 3 to 5 of the specification: the forward transform
  of each patch; the "elementwise conjugate product of the two spectra, normalized by
  its own magnitude"; the inverse transform (not scaled, as the comment "max response
  is M*N" of the source has it), circularly shifted "so the zero-lag position is at the
  patch center". The arithmetic is exact. This definition only instantiates the
  parameter \<open>correlationSurface\<close> in the examples.
\<close>

definition dftCoefficient :: "real list list \<Rightarrow> int \<Rightarrow> int \<Rightarrow> complex" where
  "dftCoefficient es u v =
     (\<Sum>(y, x)\<leftarrow>positions es.
        of_real (value_at es y x)
        * cis (- (2 * pi * (real_of_int (u * y) / real (length es)
                              + real_of_int (v * x) / real_of_int (width es)))))"

definition phaseOnly :: "complex \<Rightarrow> complex" where
  "phaseOnly z = (if z = 0 then 0 else z / of_real (cmod z))"

definition specCorrelationSurface :: "real list list \<Rightarrow> real list list \<Rightarrow> int \<Rightarrow> int \<Rightarrow> real" where
  "specCorrelationSurface es1 es2 i j =
     (let M = int (length es1);
          N = width es1;
          y = (i - M div 2) mod M;
          x = (j - N div 2) mod N
      in Re (\<Sum>(u, v)\<leftarrow>positions es1.
               phaseOnly (dftCoefficient es1 u v * cnj (dftCoefficient es2 u v))
               * cis (2 * pi * (real_of_int (u * y) / real_of_int M
                                  + real_of_int (v * x) / real_of_int N))))"

text \<open>
  Modelled from the spec: \<^verbatim>\<open>weightedCentroid\<close> is declared in \<^verbatim>\<open>opencv_methods.hpp\<close>, which
  is not among the sources. The specification has it "compute a weighted centroid over
  a 5x5 neighborhood" of the peak, and has the response score be "the cross-correlation
  peak value". The neighbourhood is cut at the border of the surface, and a
  neighbourhood of total weight zero gives the centroid (0, 0). This definition only
  instantiates the parameter \<open>weightedCentroid\<close> in the examples.
\<close>

definition specWeightedCentroid ::
  "real list list \<Rightarrow> int \<times> int \<Rightarrow> int \<times> int \<Rightarrow> point2f \<times> real" where
  "specWeightedCentroid es peakLoc wsize =
     (let xs = [max 0 (fst peakLoc - fst wsize div 2)
                  ..min (width es - 1) (fst peakLoc + fst wsize div 2)];
          ys = [max 0 (snd peakLoc - snd wsize div 2)
                  ..min (int (length es) - 1) (snd peakLoc + snd wsize div 2)];
          window = List.product ys xs;
          total = (\<Sum>(i, j)\<leftarrow>window. value_at es i j)
      in (if total = 0 then Point2f 0 0
          else Point2f ((\<Sum>(i, j)\<leftarrow>window. real_of_int j * value_at es i j) / total)
                       ((\<Sum>(i, j)\<leftarrow>window. real_of_int i * value_at es i j) / total),
          value_at es (snd peakLoc) (fst peakLoc)))"

text \<open>
  The maximum location of \<^verbatim>\<open>minMaxLoc\<close>, as \<^verbatim>\<open>Point(x, y)\<close>: the first maximum in
  row-major order. It instantiates the parameter \<open>maxLoc\<close> in the examples.
\<close>

definition firstMaxLoc :: "real list list \<Rightarrow> int \<times> int" where
  "firstMaxLoc es =
     foldl (\<lambda>best (i, j). if value_at es (snd best) (fst best) < value_at es i j
                            then (j, i) else best)
       (0, 0) (positions es)"

section \<open>Example inputs\<close>

text \<open>
  A memory holding two 1 x 1 matrices of 32-bit floats, at addresses 1 and 2, with
  the given values.
\<close>

definition memory_1x1 :: "real \<Rightarrow> real \<Rightarrow> memory" where
  "memory_1x1 u v =
     \<lparr>buffers = (\<lambda>a i k. if a = 1 then float_enc u else float_enc v), next_free = 3\<rparr>"

definition mat_1x1 :: "addr \<Rightarrow> mat" where
  "mat_1x1 a = \<lparr>rows = 1, cols = 1, mtype = CV_32FC1, data = a\<rparr>"

text \<open>
  A memory holding two 1 x 1 matrices of doubles: 1.0, the pattern 3FF0000000000000,
  at address 1 and 5.0, the pattern 4014000000000000, at address 2.
\<close>

definition memory_1x1_f64 :: memory where
  "memory_1x1_f64 =
     \<lparr>buffers = (\<lambda>a i k. if k = 1 then (if a = 1 then 0x3FF00000 else 0x40140000) else 0),
      next_free = 3\<rparr>"

definition mat_1x1_f64 :: "addr \<Rightarrow> mat" where
  "mat_1x1_f64 a = \<lparr>rows = 1, cols = 1, mtype = CV_64FC1, data = a\<rparr>"

text \<open>The buffer of a 1 x 2 surface of doubles holding 1.0 and 5.0.\<close>

definition surface_f64 :: cells where
  "surface_f64 = (\<lambda>i k. if k = 1 then 0x3FF00000 else if k = 3 then 0x40140000 else 0)"

text \<open>
  A memory holding three 2 x 2 matrices of 32-bit floats: every element is 2 at
  address 1, 4 at address 2 and 1/2 at address 3.
\<close>

definition example_memory :: memory where
  "example_memory =
     \<lparr>buffers = (\<lambda>a. if a = 1 then (\<lambda>i k. float_enc 2) else if a = 2 then (\<lambda>i k. float_enc 4)
                    else if a = 3 then (\<lambda>i k. float_enc (1 / 2)) else (\<lambda>i k. 0)),
      next_free = 4\<rparr>"

definition mat_2x2 :: "addr \<Rightarrow> mat" where
  "mat_2x2 a = \<lparr>rows = 2, cols = 2, mtype = CV_32FC1, data = a\<rparr>"

text \<open>
  A memory holding the same 2 x 2 patch of 32-bit floats twice, at addresses 1 and 2:
  1 at row 0, column 0 and 0 elsewhere.
\<close>

definition impulse_memory :: memory where
  "impulse_memory =
     \<lparr>buffers = (\<lambda>a i k. if (a = 1 \<or> a = 2) \<and> i = 0 \<and> k = 0 then float_enc 1 else 0),
      next_free = 3\<rparr>"

text \<open>
  An instance of the parameters of \<^verbatim>\<open>phaseCorr\<close>: the optimal DFT sizes of OpenCV up
  to 8 (1, 2, 3, 4, 5, 6, 8) and the three functions written from the specification.
\<close>

definition example_ops :: cv_ops where
  "example_ops =
     \<lparr>getOptimalDFTSize = (\<lambda>n. if n \<le> 1 then 1 else if n \<le> 6 then n else 8),
      correlationSurface = specCorrelationSurface,
      maxLoc = firstMaxLoc,
      weightedCentroid = specWeightedCentroid\<rparr>"

section \<open>Properties of the memory model\<close>

text \<open>The logarithm that selects the exponent, and the patterns of the values used below.\<close>

lemma floor_log2:
  assumes "0 < v" and "2 powi e \<le> v" and "v < 2 powi (e + 1)"
  shows "\<lfloor>log 2 v\<rfloor> = e"
proof -
  have "2 powr real_of_int e = 2 powi e" "2 powr (real_of_int e + 1) = 2 powi (e + 1)"
    using powr_real_of_int' [of 2 e] powr_real_of_int' [of 2 "e + 1"] by simp_all
  with assms show ?thesis
    by (simp add: floor_log_eq_powr_iff)
qed

lemma float_val_0: "float_val 0 = 0"
  by (simp add: float_val_def ieee_val_def)

lemma float_enc_0: "float_enc 0 = 0"
  by (simp add: float_enc_def ieee_enc_def)

lemma float_enc_values:
  "float_enc 1 = 0x3F800000" "float_enc 2 = 0x40000000" "float_enc 4 = 0x40800000"
  "float_enc 5 = 0x40A00000" "float_enc (1 / 2) = 0x3F000000"
proof -
  have "\<lfloor>log 2 (1::real)\<rfloor> = 0" "\<lfloor>log 2 (2::real)\<rfloor> = 1" "\<lfloor>log 2 (4::real)\<rfloor> = 2"
    "\<lfloor>log 2 (5::real)\<rfloor> = 2" "\<lfloor>log 2 (1 / 2 :: real)\<rfloor> = - 1"
    by (rule floor_log2; simp)+
  then show "float_enc 1 = 0x3F800000" "float_enc 2 = 0x40000000" "float_enc 4 = 0x40800000"
    "float_enc 5 = 0x40A00000" "float_enc (1 / 2) = 0x3F000000"
    by (simp_all add: float_enc_def ieee_enc_def Let_def round_even_def)
qed

lemma float_val_values:
  "float_val 0x3F800000 = 1" "float_val 0x40000000 = 2" "float_val 0x40800000 = 4"
  "float_val 0x40A00000 = 5" "float_val 0x3F000000 = 1 / 2"
  by (simp_all add: float_val_def ieee_val_def Let_def)

lemma double_val_values:
  "double_val 0 0x3FF00000 = 1" "double_val 0 0x40140000 = 5" "double_val 0 0 = 0"
  by (simp_all add: double_val_def ieee_val_def Let_def)

lemma CV_codes: "CV_32FC1 \<noteq> CV_64FC1" "CV_64FC1 \<noteq> CV_32FC1"
  by (simp_all add: CV_32FC1_def CV_64FC1_def)

text \<open>
  A pattern fits its format, so a value stored in a buffer and read back at the same
  type is the value rounded to that type.
\<close>

lemma ieee_enc_bound: "ieee_enc eb mb v < 2 ^ (eb + mb + 1)"
proof (cases "v = 0")
  case True
  then show ?thesis by (simp add: ieee_enc_def)
next
  case False
  have "(2 ^ eb - 1) * 2 ^ mb < (2::nat) ^ (eb + mb)"
    by (simp add: power_add diff_mult_distrib)
  then have m: "min b ((2 ^ eb - 1) * 2 ^ mb) < (2::nat) ^ (eb + mb)" for b
    by (simp add: min_def)
  have "ieee_enc eb mb v \<le> 2 ^ (eb + mb) + min (nat ((max (1 - int (2 ^ (eb - 1) - 1)) \<lfloor>log 2 \<bar>v\<bar>\<rfloor>
          + int (2 ^ (eb - 1) - 1) - 1) * 2 ^ mb
          + round_even (\<bar>v\<bar> / 2 powi (max (1 - int (2 ^ (eb - 1) - 1)) \<lfloor>log 2 \<bar>v\<bar>\<rfloor> - int mb))))
          ((2 ^ eb - 1) * 2 ^ mb)"
    using False unfolding ieee_enc_def Let_def by simp
  also have "\<dots> < 2 ^ (eb + mb) + 2 ^ (eb + mb)"
    using m by (rule add_strict_left_mono)
  finally show ?thesis by simp
qed

lemma float_val_enc: "float_val (float_enc v) = rounded CV_32FC1 v"
proof -
  have "ieee_enc 8 23 v < 2 ^ 32" using ieee_enc_bound [of 8 23 v] by simp
  then show ?thesis
    by (simp add: float_val_def float_enc_def rounded_def CV_codes unat_of_nat take_bit_nat_eq_self)
qed

lemma double_val_enc: "double_val (double_lo v) (double_hi v) = rounded CV_64FC1 v"
proof -
  have b: "ieee_enc 11 52 v < 2 ^ 64" using ieee_enc_bound [of 11 52 v] by simp
  then have "ieee_enc 11 52 v div 2 ^ 32 < 2 ^ 32"
    by (simp add: less_mult_imp_div_less)
  then show ?thesis
    by (simp add: double_val_def double_lo_def double_hi_def rounded_def unat_of_nat
        take_bit_nat_eq_self)
qed

lemma elem_encode: "elem t (encode t f) i j = rounded t (f i j)"
  using float_val_enc [of "f i j"] double_val_enc [of "f i j"]
  by (auto simp: elem_def encode_def rounded_def CV_codes)

text \<open>
  On a matrix of 32-bit floats \<^verbatim>\<open>at<float>\<close> reads the element, and the write of
  \<^verbatim>\<open>phaseCorr\<close> sets one element to 0 and leaves every other element as it was.
\<close>

lemma at_float_elem: "mtype m = CV_32FC1 \<Longrightarrow> at_float h m i j = elem_at h m i j"
  by (simp add: at_float_def elem_at_def elem_def CV_32FC1_def CV_64FC1_def)

lemma zero_at_float:
  "elem CV_32FC1 (zero_at C peakLoc) i j =
     (if i = snd peakLoc \<and> j = fst peakLoc then 0 else elem CV_32FC1 C i j)"
  by (simp add: elem_def zero_at_def float_val_0 CV_32FC1_def CV_64FC1_def)

lemma upto_0_1: "[0..1::int] = [0, 1]"
  by (simp add: upto.simps)

lemma upto_0_0: "[0..0::int] = [0]"
  by (simp add: upto.simps)

section \<open>Properties of the median neighbour predictor\<close>

lemma medianOf_three:
  "medianOf [Point2f a1 b1, Point2f a2 b2, Point2f a3 b3] =
     Point2f (max 0 (min a1 (min a2 a3))) (max 0 (min b1 (min b2 b3)))"
  by (auto simp: medianOf_def nth_element_def Let_def numeral_3_eq_3 max_def min_def)

lemma at_grid_rectangular:
  "rectangular g nrows ncols \<Longrightarrow>
   at_grid g (i, j) =
     (if 0 \<le> i \<and> i < int nrows \<and> 0 \<le> j \<and> j < int ncols then Inr (g ! nat i ! nat j)
      else Inl OutOfRange)"
  by (auto simp: rectangular_def at_grid_def at_vec_def list_all_length)

lemma read_all_three:
  "read_all g [a, b, c] =
     (case at_grid g a of Inl e \<Rightarrow> Inl e | Inr u \<Rightarrow>
       (case at_grid g b of Inl e \<Rightarrow> Inl e | Inr v \<Rightarrow>
         (case at_grid g c of Inl e \<Rightarrow> Inl e | Inr w \<Rightarrow> Inr [u, v, w])))"
  by (simp split: sum.splits)

text \<open>
  Claim C1. The specification says that the predictor returns the median of the three
  neighbours' x values and the median of their y values, so that the neighbours
  (0,0), (2,2), (4,4) give (2,2). The code does not: its coordinate vectors start with
  three zeros and the three coordinates are appended, so the value at position 3 of six
  sorted values is returned (\<open>medianOf_three\<close>: the smallest coordinate, or zero when
  that is negative). At the interior position (1,1) of the 2 x 2 field below the
  neighbours read are (0,0), (2,2), (4,4), the code returns (0,0), and the median of
  the specification is (2,2).
\<close>

theorem medianNeighbor_0_2_4_returns_zero:
  "read_all [[Point2f 0 0, Point2f 2 2], [Point2f 4 4, Point2f 9 9]] (selectNeighbors 1 1)
     = Inr [Point2f 0 0, Point2f 2 2, Point2f 4 4]
   \<and> medianNeighbor 1 1 [[Point2f 0 0, Point2f 2 2], [Point2f 4 4, Point2f 9 9]]
     = Inr (Point2f 0 0)
   \<and> perCoordinateMedian (Point2f 0 0) (Point2f 2 2) (Point2f 4 4) = Point2f 2 2"
  by (simp add: medianNeighbor_def selectNeighbors_def at_grid_def at_vec_def medianOf_def
      nth_element_def Let_def numeral_3_eq_3 perCoordinateMedian_def median3_def)

text \<open>
  Claim C3. For every grid position (row and column not negative) the three index
  pairs the code reads are the neighbours of the specification's case table, in the
  table's order: right, below, below-right at the top-left corner; above, above-right,
  right on the left edge; left, below-left, below on the top edge; above-left, above,
  left everywhere else. The result of the call is computed from the cells read at
  exactly these positions.
\<close>

theorem medianNeighbor_case_table:
  "0 \<le> rowpos \<Longrightarrow> 0 \<le> colpos \<Longrightarrow>
   selectNeighbors rowpos colpos = map (neighborAt (rowpos, colpos)) (caseTable rowpos colpos)
   \<and> length (caseTable rowpos colpos) = 3
   \<and> medianNeighbor rowpos colpos g =
       (case read_all g (map (neighborAt (rowpos, colpos)) (caseTable rowpos colpos)) of
          Inl e \<Rightarrow> Inl e
        | Inr neighborMV \<Rightarrow> Inr (medianOf neighborMV))"
  by (auto simp: medianNeighbor_def selectNeighbors_def caseTable_def)

theorem medianNeighbor_case_table_witness:
  "(0::int) \<le> 2 \<and> (0::int) \<le> 0
   \<and> selectNeighbors 2 0 = [(1, 0), (1, 1), (2, 1)]
   \<and> caseTable 2 0 = [Above, AboveRight, Right]"
  using medianNeighbor_case_table [of 2 0]
  by (simp add: caseTable_def)

text \<open>
  Claim C9, as stated, says that in the corner, left-edge and top-edge classes every
  call in the last row or in the last column reads outside the grid. It does not: the
  left-edge class reads rows \<open>rowpos - 1\<close> and \<open>rowpos\<close> only, so at the last row of a
  grid with two columns every read is inside. Position (1,0) of a 2 x 2 grid is in the
  left-edge class and in the last row, and the call returns a vector.
\<close>

theorem medianNeighbor_last_row_counterexample:
  "caseTable 1 0 = [Above, AboveRight, Right]
   \<and> (1::int) = int (length [[Point2f 1 1, Point2f 2 2], [Point2f 3 3, Point2f 4 4]]) - 1
   \<and> medianNeighbor 1 0 [[Point2f 1 1, Point2f 2 2], [Point2f 3 3, Point2f 4 4]]
       = Inr (Point2f 1 1)"
  by (simp add: caseTable_def medianNeighbor_def selectNeighbors_def at_grid_def at_vec_def
      medianOf_def nth_element_def Let_def numeral_3_eq_3)

text \<open>
  Claim C9, amended. The corner class reads row \<open>rowpos + 1\<close> and column \<open>colpos + 1\<close>,
  the left-edge class column \<open>colpos + 1\<close> only, the top-edge class row \<open>rowpos + 1\<close>
  only. For a rectangular grid and a position inside it, the call reads outside the
  grid exactly when row 0 is the last row or column 0 is the last column of the
  position (the classes that index \<open>rowpos + 1\<close> have \<open>rowpos = 0\<close>, those that index
  \<open>colpos + 1\<close> have \<open>colpos = 0\<close>); and every read is inside exactly when the grid
  has at least two rows and two columns.
\<close>

theorem medianNeighbor_in_bounds:
  assumes "rectangular g nrows ncols"
    and "0 \<le> rowpos" and "rowpos < int nrows"
    and "0 \<le> colpos" and "colpos < int ncols"
  shows "(medianNeighbor rowpos colpos g = Inl OutOfRange \<longleftrightarrow>
            (rowpos = 0 \<and> rowpos = int nrows - 1) \<or> (colpos = 0 \<and> colpos = int ncols - 1))
       \<and> ((\<exists>p. medianNeighbor rowpos colpos g = Inr p) \<longleftrightarrow> 2 \<le> nrows \<and> 2 \<le> ncols)"
  using assms
  by (auto simp: medianNeighbor_def selectNeighbors_def read_all_three at_grid_rectangular
      split: sum.splits if_splits)

theorem medianNeighbor_in_bounds_witness:
  "rectangular [[Point2f 1 1, Point2f 2 2]] 1 2
   \<and> (0::int) \<le> 0 \<and> (0::int) < int 1 \<and> (0::int) \<le> 1 \<and> (1::int) < int 2
   \<and> medianNeighbor 0 1 [[Point2f 1 1, Point2f 2 2]] = Inl OutOfRange"
  using medianNeighbor_in_bounds [of "[[Point2f 1 1, Point2f 2 2]]" 1 2 0 1]
  by (simp add: rectangular_def)

section \<open>Properties of the block cost evaluator\<close>

text \<open>A counting loop that adds one term per index computes the sum of the terms.\<close>

lemma for_loop_sum:
  "for_loop i n (\<lambda>k s. s + f k) s = s + (\<Sum>k = i..<n. f k)"
proof (induction i n "\<lambda>k (s::'a::comm_monoid_add). s + f k" s rule: for_loop.induct)
  case (1 i n s)
  show ?case
  proof (cases "i < n")
    case True
    have "{i..<n} = insert i {i + 1..<n}" using True by auto
    then have "(\<Sum>k = i..<n. f k) = f i + (\<Sum>k = i + 1..<n. f k)" by simp
    with 1 True show ?thesis
      by (subst for_loop.simps) (simp add: add.assoc)
  next
    case False
    then show ?thesis by (subst for_loop.simps) simp
  qed
qed

lemma for_loop_sum_fun:
  "for_loop i n (\<lambda>k s. s + f k) = (\<lambda>s. s + (\<Sum>k = i..<n. f k))"
  by (rule ext) (rule for_loop_sum)

lemma calcSAD_as_sum:
  assumes "mtype prevBlock = mtype curr_mat"
    and "mtype prevBlock = CV_32FC1 \<or> mtype prevBlock = CV_64FC1"
  shows "calcSAD B h prevBlock rowpos colpos curr_mat dx dy =
     Inr (\<Sum>i = 0..<rows prevBlock. \<Sum>j = 0..<cols prevBlock.
            if insideFrame curr_mat (targetRow B rowpos dy i) (targetCol B colpos dx j)
            then \<bar>at_float h prevBlock i j
                   - at_float h curr_mat (targetRow B rowpos dy i) (targetCol B colpos dx j)\<bar>
            else at_float h prevBlock i j)"
proof -
  let ?g = "\<lambda>i j. if insideFrame curr_mat (targetRow B rowpos dy i) (targetCol B colpos dx j)
            then \<bar>at_float h prevBlock i j
                   - at_float h curr_mat (targetRow B rowpos dy i) (targetCol B colpos dx j)\<bar>
            else at_float h prevBlock i j"
  have body: "(\<lambda>j SAD.
        if i + rowpos * B + c_round dy < 0 \<or> i + rowpos * B + c_round dy \<ge> rows curr_mat
           \<or> j + colpos * B + c_round dx < 0 \<or> j + colpos * B + c_round dx \<ge> cols curr_mat
        then SAD + at_float h prevBlock i j
        else SAD + \<bar>at_float h prevBlock i j
               - at_float h curr_mat (i + rowpos * B + c_round dy) (j + colpos * B + c_round dx)\<bar>)
      = (\<lambda>j SAD. SAD + ?g i j)" for i
    by (auto simp: fun_eq_iff insideFrame_def targetRow_def targetCol_def)
  show ?thesis
    using assms
    by (simp add: calcSAD_def Let_def body for_loop_sum_fun)
qed

lemma c_round_simps: "c_round 0 = 0" "c_round 1 = 1"
  by (simp_all add: c_round_def)

lemma calcSAD_elementwise:
  assumes "mtype prevBlock = CV_32FC1" and "mtype curr_mat = CV_32FC1"
  shows "calcSAD B h prevBlock rowpos colpos curr_mat dx dy
           = Inr (elementwiseCost B h prevBlock rowpos colpos curr_mat dx dy)"
  using assms
  by (simp add: calcSAD_as_sum elementwiseCost_def at_float_elem cong: if_cong)

lemma doubles_1x1:
  "mat_elements memory_1x1_f64 (mat_1x1_f64 1) = [[1]]"
  "mat_elements memory_1x1_f64 (mat_1x1_f64 2) = [[5]]"
  "calcSAD 16 memory_1x1_f64 (mat_1x1_f64 1) 0 0 (mat_1x1_f64 2) 0 0 = Inr 0"
  "elementwiseCost 16 memory_1x1_f64 (mat_1x1_f64 1) 0 0 (mat_1x1_f64 2) 0 0 = 4"
  by (simp_all add: calcSAD_as_sum elementwiseCost_def mat_elements_def elements_def elem_at_def
      elem_def at_float_def mat_1x1_f64_def memory_1x1_f64_def insideFrame_def targetRow_def
      targetCol_def c_round_simps upto_0_0 double_val_values float_val_0)







section \<open>Properties of the report sink\<close>

lemma digit_char_is_digit: "d < 10 \<Longrightarrow> digit_char d \<in> set ''0123456789''"
  unfolding digit_char_def by (rule nth_mem) simp

lemma show_nat_digits: "set (show_nat n) \<subseteq> set ''0123456789''"
proof (induction n rule: show_nat.induct)
  case (1 n)
  show ?case
  proof (cases "n < 10")
    case True
    then show ?thesis
      using digit_char_is_digit [of n] by (subst show_nat.simps) simp
  next
    case False
    have "n mod 10 < 10" by simp
    then have "digit_char (n mod 10) \<in> set ''0123456789''"
      by (rule digit_char_is_digit)
    with False 1 show ?thesis
      by (subst show_nat.simps) simp
  qed
qed

lemma show_int_no_newline: "CHR ''\<newline>'' \<notin> set (show_int i)"
proof -
  have "CHR ''\<newline>'' \<notin> set (show_nat n)" for n
    using show_nat_digits [of n] by auto
  then show ?thesis by (simp add: show_int_def)
qed

lemma report_line_one_newline:
  "count_list (''Interpolated frame in :'' @ show_int d @ '' milliseconds \<newline>'')
     CHR ''\<newline>'' = 1"
  using show_int_no_newline [of d] by (simp add: count_list_0_iff)

text \<open>
  Claim C8, as stated, says that every call on a stream that is not open ends the
  process. The code tests \<^verbatim>\<open>!file\<close>, the error flags of the stream, not whether a file
  is open: on a stream that was never opened (or was closed) and has no error flag the
  call returns, and nothing reaches the sink.
\<close>

theorem writeToFile_unopened_counterexample:
  "\<not> is_open \<lparr>is_open = False, failed = False, sink = ''''\<rparr>
   \<and> writeToFile '''' \<lparr>is_open = False, failed = False, sink = ''''\<rparr> 42
       = (Returned, '''', \<lparr>is_open = False, failed = True, sink = ''''\<rparr>)"
  by (simp add: writeToFile_def put_def)

text \<open>
  Claim C8, amended. If the stream is in a failed state (\<^verbatim>\<open>failbit\<close> or \<^verbatim>\<open>badbit\<close>
  set, as after an unsuccessful open), the call prints "Could not open the file" on
  the standard output and exits with status -1, and the sink is left as it was. If the
  stream is open and not in a failed state, the call returns after appending exactly
  one line to the sink: "Interpolated frame in :", the duration in milliseconds in
  decimal, " milliseconds " and the only newline.
\<close>

theorem writeToFile_exit_or_one_line:
  "(failed file \<longrightarrow>
      writeToFile cout file duration
        = (Exited (- 1), cout @ ''Could not open the file\<newline>'', file))
   \<and> (\<not> failed file \<and> is_open file \<longrightarrow>
      (\<exists>line. writeToFile cout file duration
                 = (Returned, cout, file\<lparr>sink := sink file @ line\<rparr>)
         \<and> line = ''Interpolated frame in :'' @ show_int duration @ '' milliseconds \<newline>''
         \<and> count_list line CHR ''\<newline>'' = 1
         \<and> last line = CHR ''\<newline>''))"
  using report_line_one_newline [of duration]
  by (simp add: writeToFile_def put_def)

theorem writeToFile_exit_or_one_line_witness:
  "writeToFile '''' \<lparr>is_open = False, failed = True, sink = ''''\<rparr> 42
     = (Exited (- 1), ''Could not open the file\<newline>'',
        \<lparr>is_open = False, failed = True, sink = ''''\<rparr>)
   \<and> writeToFile '''' \<lparr>is_open = True, failed = False, sink = ''''\<rparr> 42
     = (Returned, '''', \<lparr>is_open = True, failed = False,
          sink = ''Interpolated frame in :42 milliseconds \<newline>''\<rparr>)"
  using writeToFile_exit_or_one_line [of "\<lparr>is_open = False, failed = True, sink = ''''\<rparr>" "''''" 42]
    writeToFile_exit_or_one_line [of "\<lparr>is_open = True, failed = False, sink = ''''\<rparr>" "''''" 42]
  by (simp add: show_int_def show_nat.simps digit_char_def)

section \<open>Properties of the phase correlation estimator\<close>

subsection \<open>The assertions\<close>

lemma phaseCorr_rejects:
  "\<not> phaseCorr_precondition src1 src2 window
   \<Longrightarrow> phaseCorr ops h src1 src2 window response = Inl AssertionFailed"
  by (auto simp: phaseCorr_def phaseCorr_precondition_def same_size_def)

lemma phaseCorr_accepts:
  "phaseCorr_precondition src1 src2 window
   \<Longrightarrow> \<exists>res. phaseCorr ops h src1 src2 window response = Inr res"
  by (auto simp: phaseCorr_def phaseCorr_precondition_def same_size_def Let_def split_beta)

text \<open>
  Claim C7. \<^verbatim>\<open>phaseCorr\<close> ends in a failed assertion exactly when the precondition of
  the specification is violated: the patches differ in dimensions or type, the type is
  neither 32- nor 64-bit single-channel float, or a supplied window does not match.
  A violation never yields a result (the assertion is the only outcome), and under the
  precondition no assertion of \<^verbatim>\<open>phaseCorr\<close> fires: the call returns a result.
\<close>

theorem phaseCorr_assertions:
  "(phaseCorr ops h src1 src2 window response = Inl AssertionFailed
      \<longleftrightarrow> \<not> phaseCorr_precondition src1 src2 window)
   \<and> (phaseCorr_precondition src1 src2 window
      \<longrightarrow> (\<exists>res. phaseCorr ops h src1 src2 window response = Inr res))"
  using phaseCorr_rejects [of src1 src2 window ops h response]
    phaseCorr_accepts [of src1 src2 window ops h response]
  by auto

theorem phaseCorr_assertions_witness:
  "phaseCorr example_ops example_memory (mat_2x2 1) ((mat_2x2 2)\<lparr>mtype := CV_64FC1\<rparr>) no_mat None
     = Inl AssertionFailed
   \<and> phaseCorr_precondition (mat_2x2 1) (mat_2x2 2) (mat_2x2 3)
   \<and> (\<exists>res. phaseCorr example_ops example_memory (mat_2x2 1) (mat_2x2 2) (mat_2x2 3) None
               = Inr res)"
  using phaseCorr_assertions [where ?src1.0 = "mat_2x2 1" and ?src2.0 = "(mat_2x2 2)\<lparr>mtype := CV_64FC1\<rparr>"
      and window = no_mat and ops = example_ops and h = example_memory and response = None]
    phaseCorr_assertions [where ?src1.0 = "mat_2x2 1" and ?src2.0 = "mat_2x2 2"
      and window = "mat_2x2 3" and ops = example_ops and h = example_memory and response = None]
  by (simp add: phaseCorr_precondition_def mat_2x2_def mat_empty_def CV_32FC1_def CV_64FC1_def)

subsection \<open>The patches the surface is computed from\<close>

text \<open>
  What \<^verbatim>\<open>copyMakeBorder\<close> and \<^verbatim>\<open>multiply\<close> leave in the memory, element by element;
  then, for patches and a window in buffers of their own, the elements of the two
  matrices handed to the DFT: those of steps 1 and 2 of the specification.
\<close>

lemma copyMakeBorder_elem:
  assumes "copyMakeBorder h src no_mat 0 b 0 r = (h1, dst1)"
  shows "dst1 = \<lparr>rows = rows src + b, cols = cols src + r, mtype = mtype src, data = next_free h\<rparr>"
    and "next_free h1 = next_free h + 1"
    and "a \<noteq> next_free h \<Longrightarrow> buffers h1 a = buffers h a"
    and "0 \<le> i \<Longrightarrow> 0 \<le> j \<Longrightarrow>
           elem (mtype src) (buffers h1 (next_free h)) i j
             = (if i < rows src \<and> j < cols src then elem_at h src i j else 0)"
  using assms
  by (auto simp: copyMakeBorder_def Let_def store_def no_mat_def create_def elem_at_def elem_def
      cells_per_elem_def double_val_values float_val_0)

lemma multiply_elem:
  assumes "multiply h a b b = (h1, dst1)"
    and "data b \<noteq> 0" and "rows b = rows a" and "cols b = cols a" and "mtype b = mtype a"
  shows "dst1 = b"
    and "next_free h1 = next_free h"
    and "x \<noteq> data b \<Longrightarrow> buffers h1 x = buffers h x"
    and "elem (mtype a) (buffers h1 (data b)) i j
           = rounded (mtype a) (elem_at h a i j * elem_at h b i j)"
  using assms
  by (auto simp: multiply_def Let_def store_def create_def elem_at_def elem_encode)

lemma prepared_padded:
  assumes pre: "phaseCorr_precondition src1 src2 window"
    and M: "M = getOptimalDFTSize ops (rows src1)"
    and N: "N = getOptimalDFTSize ops (cols src1)"
    and nz: "M * N \<noteq> 0"
    and sep: "separate_buffers h src1 src2 window"
    and pad: "padInputs ops h src1 src2 window = (h3, padded1, padded2, paddedWin)"
    and win: "applyWindow h3 paddedWin padded1 padded2 = (h5, q1, q2)"
    and differs: "M \<noteq> rows src1 \<or> N \<noteq> cols src1"
    and i: "0 \<le> i" and j: "0 \<le> j"
  shows "rows q1 = M \<and> cols q1 = N \<and> mtype q1 = mtype src1
         \<and> rows q2 = M \<and> cols q2 = N \<and> mtype q2 = mtype src1"
    and "elem_at h5 q1 i j =
           (if mat_empty window
            then (if i < rows src1 \<and> j < cols src1 then elem_at h src1 i j else 0)
            else rounded (mtype src1)
                   ((if i < rows window \<and> j < cols window then elem_at h window i j else 0)
                    * (if i < rows src1 \<and> j < cols src1 then elem_at h src1 i j else 0)))"
    and "elem_at h5 q2 i j =
           (if mat_empty window
            then (if i < rows src2 \<and> j < cols src2 then elem_at h src2 i j else 0)
            else rounded (mtype src2)
                   ((if i < rows window \<and> j < cols window then elem_at h window i j else 0)
                    * (if i < rows src2 \<and> j < cols src2 then elem_at h src2 i j else 0)))"
proof -
  let ?A = "rows q1 = M \<and> cols q1 = N \<and> mtype q1 = mtype src1
         \<and> rows q2 = M \<and> cols q2 = N \<and> mtype q2 = mtype src1"
  let ?B = "elem_at h5 q1 i j =
           (if mat_empty window
            then (if i < rows src1 \<and> j < cols src1 then elem_at h src1 i j else 0)
            else rounded (mtype src1)
                   ((if i < rows window \<and> j < cols window then elem_at h window i j else 0)
                    * (if i < rows src1 \<and> j < cols src1 then elem_at h src1 i j else 0)))"
  let ?C = "elem_at h5 q2 i j =
           (if mat_empty window
            then (if i < rows src2 \<and> j < cols src2 then elem_at h src2 i j else 0)
            else rounded (mtype src2)
                   ((if i < rows window \<and> j < cols window then elem_at h window i j else 0)
                    * (if i < rows src2 \<and> j < cols src2 then elem_at h src2 i j else 0)))"
  let ?nf = "next_free h"
  obtain h1 p1 where c1: "copyMakeBorder h src1 no_mat 0 (M - rows src1) 0 (N - cols src1) = (h1, p1)"
    by (cases "copyMakeBorder h src1 no_mat 0 (M - rows src1) 0 (N - cols src1)") auto
  obtain h2 p2 where c2: "copyMakeBorder h1 src2 no_mat 0 (M - rows src2) 0 (N - cols src2) = (h2, p2)"
    by (cases "copyMakeBorder h1 src2 no_mat 0 (M - rows src2) 0 (N - cols src2)") auto
  note e1 = copyMakeBorder_elem [OF c1] and e2 = copyMakeBorder_elem [OF c2]
  have sz: "rows src2 = rows src1" "cols src2 = cols src1" "mtype src2 = mtype src1"
    using pre by (auto simp: phaseCorr_precondition_def)
  have ptr: "0 < data src1" "data src1 < ?nf" "0 < data src2" "data src2 < ?nf"
    using sep by (auto simp: separate_buffers_def)
  have p1: "rows p1 = M" "cols p1 = N" "mtype p1 = mtype src1" "data p1 = ?nf"
    using e1(1) by simp_all
  have p2: "rows p2 = M" "cols p2 = N" "mtype p2 = mtype src1" "data p2 = ?nf + 1"
    using e2(1) e1(2) sz by simp_all
  have v1: "elem (mtype src1) (buffers h2 ?nf) i j
              = (if i < rows src1 \<and> j < cols src1 then elem_at h src1 i j else 0)"
    using e2(3) [of ?nf] e1(2) e1(4) [OF i j] by simp
  have "elem_at h1 src2 i j = elem_at h src2 i j"
    using e1(3) [of "data src2"] ptr by (simp add: elem_at_def)
  then have v2: "elem (mtype src1) (buffers h2 (?nf + 1)) i j
              = (if i < rows src2 \<and> j < cols src2 then elem_at h src2 i j else 0)"
    using e2(4) [OF i j] e1(2) sz by simp
  have "?A \<and> ?B \<and> ?C"
  proof (cases "mat_empty window")
    case True
    have "h3 = h2" "padded1 = p1" "padded2 = p2" "paddedWin = no_mat"
      using pad differs c1 c2 True M N sz by (auto simp: padInputs_def Let_def)
    then have r: "h5 = h2" "q1 = p1" "q2 = p2"
      using win by (auto simp: applyWindow_def no_mat_def mat_empty_def)
    have a: ?A
      using r p1 p2 by simp
    have b: ?B
      using True r p1 v1 by (simp add: elem_at_def)
    have c: ?C
      using True r p2 v2 by (simp add: elem_at_def)
    from a b c show ?thesis by blast
  next
    case False
    obtain h3' pw where c3: "copyMakeBorder h2 window no_mat 0 (M - rows window) 0 (N - cols window) = (h3', pw)"
      by (cases "copyMakeBorder h2 window no_mat 0 (M - rows window) 0 (N - cols window)") auto
    note e3 = copyMakeBorder_elem [OF c3]
    have wsz: "rows window = rows src1" "cols window = cols src1" "mtype window = mtype src1"
      using pre False by (auto simp: phaseCorr_precondition_def)
    have wptr: "data window < ?nf"
      using sep False by (auto simp: separate_buffers_def)
    have pw: "rows pw = M" "cols pw = N" "mtype pw = mtype src1" "data pw = ?nf + 2"
      using e3(1) e2(2) e1(2) wsz by simp_all
    have r3: "h3 = h3'" "padded1 = p1" "padded2 = p2" "paddedWin = pw"
      using pad differs c1 c2 c3 False M N sz by (auto simp: padInputs_def Let_def)
    have pwne: "\<not> mat_empty pw"
      using pw nz by (simp add: mat_empty_def)
    obtain h4 r1 where m1: "multiply h3' pw p1 p1 = (h4, r1)"
      by (cases "multiply h3' pw p1 p1") auto
    obtain h5' r2 where m2: "multiply h4 pw p2 p2 = (h5', r2)"
      by (cases "multiply h4 pw p2 p2") auto
    have nf: "0 < ?nf" using ptr by simp
    note f1 = multiply_elem [OF m1] and f2 = multiply_elem [OF m2]
    have g1: "r1 = p1" "\<And>x. x \<noteq> ?nf \<Longrightarrow> buffers h4 x = buffers h3' x"
      "\<And>i j. elem (mtype src1) (buffers h4 ?nf) i j
           = rounded (mtype src1) (elem_at h3' pw i j * elem_at h3' p1 i j)"
      using f1 p1 pw nf by simp_all
    have g2: "r2 = p2" "\<And>x. x \<noteq> ?nf + 1 \<Longrightarrow> buffers h5' x = buffers h4 x"
      "\<And>i j. elem (mtype src1) (buffers h5' (?nf + 1)) i j
           = rounded (mtype src1) (elem_at h4 pw i j * elem_at h4 p2 i j)"
      using f2 p2 pw by simp_all
    have r: "h5 = h5'" "q1 = p1" "q2 = p2"
      using win r3 pwne m1 m2 g1(1) g2(1) by (auto simp: applyWindow_def)
    have "elem_at h2 window i j = elem_at h window i j"
      using e1(3) [of "data window"] e2(3) [of "data window"] e1(2) wptr
      by (simp add: elem_at_def)
    then have vw: "elem (mtype src1) (buffers h3' (?nf + 2)) i j
              = (if i < rows window \<and> j < cols window then elem_at h window i j else 0)"
      using e3(4) [OF i j] e2(2) e1(2) wsz by simp
    have b3: "buffers h3' ?nf = buffers h2 ?nf" "buffers h3' (?nf + 1) = buffers h2 (?nf + 1)"
      using e3(3) [of ?nf] e3(3) [of "?nf + 1"] e2(2) e1(2) by simp_all
    have a: ?A
      using r p1 p2 by simp
    have "elem_at h5 q1 i j = elem (mtype src1) (buffers h4 ?nf) i j"
      using r p1 g2(2) [of ?nf] by (simp add: elem_at_def)
    also have "\<dots> = rounded (mtype src1) (elem_at h3' pw i j * elem_at h3' p1 i j)"
      by (rule g1(3))
    also have "elem_at h3' pw i j
                 = (if i < rows window \<and> j < cols window then elem_at h window i j else 0)"
      using vw pw by (simp add: elem_at_def)
    also have "elem_at h3' p1 i j
                 = (if i < rows src1 \<and> j < cols src1 then elem_at h src1 i j else 0)"
      using v1 p1 b3 by (simp add: elem_at_def)
    finally have b: ?B
      using False by simp
    have "elem_at h5 q2 i j = elem (mtype src1) (buffers h5' (?nf + 1)) i j"
      using r p2 by (simp add: elem_at_def)
    also have "\<dots> = rounded (mtype src1) (elem_at h4 pw i j * elem_at h4 p2 i j)"
      by (rule g2(3))
    also have "elem_at h4 pw i j
                 = (if i < rows window \<and> j < cols window then elem_at h window i j else 0)"
      using vw pw g1(2) [of "?nf + 2"] by (simp add: elem_at_def)
    also have "elem_at h4 p2 i j
                 = (if i < rows src2 \<and> j < cols src2 then elem_at h src2 i j else 0)"
      using v2 p2 b3 g1(2) [of "?nf + 1"] by (simp add: elem_at_def)
    finally have c: ?C
      using False sz by simp
    from a b c show ?thesis by blast
  qed
  then show ?A and ?B and ?C by blast+
qed

lemma prepared_in_place:
  assumes pre: "phaseCorr_precondition src1 src2 window"
    and M: "M = getOptimalDFTSize ops (rows src1)"
    and N: "N = getOptimalDFTSize ops (cols src1)"
    and sep: "separate_buffers h src1 src2 window"
    and pad: "padInputs ops h src1 src2 window = (h3, padded1, padded2, paddedWin)"
    and win: "applyWindow h3 paddedWin padded1 padded2 = (h5, q1, q2)"
    and same: "\<not> (M \<noteq> rows src1 \<or> N \<noteq> cols src1)"
    and i: "i < M" and j: "j < N"
  shows "rows q1 = M \<and> cols q1 = N \<and> mtype q1 = mtype src1
         \<and> rows q2 = M \<and> cols q2 = N \<and> mtype q2 = mtype src1"
    and "elem_at h5 q1 i j =
           (if mat_empty window
            then (if i < rows src1 \<and> j < cols src1 then elem_at h src1 i j else 0)
            else rounded (mtype src1)
                   ((if i < rows window \<and> j < cols window then elem_at h window i j else 0)
                    * (if i < rows src1 \<and> j < cols src1 then elem_at h src1 i j else 0)))"
    and "elem_at h5 q2 i j =
           (if mat_empty window
            then (if i < rows src2 \<and> j < cols src2 then elem_at h src2 i j else 0)
            else rounded (mtype src2)
                   ((if i < rows window \<and> j < cols window then elem_at h window i j else 0)
                    * (if i < rows src2 \<and> j < cols src2 then elem_at h src2 i j else 0)))"
proof -
  let ?A = "rows q1 = M \<and> cols q1 = N \<and> mtype q1 = mtype src1
         \<and> rows q2 = M \<and> cols q2 = N \<and> mtype q2 = mtype src1"
  let ?B = "elem_at h5 q1 i j =
           (if mat_empty window
            then (if i < rows src1 \<and> j < cols src1 then elem_at h src1 i j else 0)
            else rounded (mtype src1)
                   ((if i < rows window \<and> j < cols window then elem_at h window i j else 0)
                    * (if i < rows src1 \<and> j < cols src1 then elem_at h src1 i j else 0)))"
  let ?C = "elem_at h5 q2 i j =
           (if mat_empty window
            then (if i < rows src2 \<and> j < cols src2 then elem_at h src2 i j else 0)
            else rounded (mtype src2)
                   ((if i < rows window \<and> j < cols window then elem_at h window i j else 0)
                    * (if i < rows src2 \<and> j < cols src2 then elem_at h src2 i j else 0)))"
  have sz: "rows src2 = rows src1" "cols src2 = cols src1" "mtype src2 = mtype src1"
    using pre by (auto simp: phaseCorr_precondition_def)
  have MN: "rows src1 = M" "cols src1 = N" using same by simp_all
  have ptr: "data src1 \<noteq> 0" "data src2 \<noteq> 0" "data src1 \<noteq> data src2"
    using sep by (auto simp: separate_buffers_def)
  have r3: "h3 = h" "padded1 = src1" "padded2 = src2" "paddedWin = window"
    using pad same M N by (auto simp: padInputs_def Let_def)
  have "?A \<and> ?B \<and> ?C"
  proof (cases "mat_empty window")
    case True
    then have "h5 = h" "q1 = src1" "q2 = src2"
      using win r3 by (auto simp: applyWindow_def)
    then show ?thesis using True sz MN i j by simp
  next
    case False
    have wsz: "rows window = rows src1" "cols window = cols src1" "mtype window = mtype src1"
      using pre False by (auto simp: phaseCorr_precondition_def)
    have wptr: "data window \<noteq> data src1" "data window \<noteq> data src2"
      using sep False by (auto simp: separate_buffers_def)
    obtain h4 r1 where m1: "multiply h window src1 src1 = (h4, r1)"
      by (cases "multiply h window src1 src1") auto
    obtain h5' r2 where m2: "multiply h4 window src2 src2 = (h5', r2)"
      by (cases "multiply h4 window src2 src2") auto
    note f1 = multiply_elem [OF m1] and f2 = multiply_elem [OF m2]
    have g1: "r1 = src1" "\<And>x. x \<noteq> data src1 \<Longrightarrow> buffers h4 x = buffers h x"
      "\<And>i j. elem (mtype src1) (buffers h4 (data src1)) i j
           = rounded (mtype src1) (elem_at h window i j * elem_at h src1 i j)"
      using f1 ptr wsz by simp_all
    have g2: "r2 = src2" "\<And>x. x \<noteq> data src2 \<Longrightarrow> buffers h5' x = buffers h4 x"
      "\<And>i j. elem (mtype src1) (buffers h5' (data src2)) i j
           = rounded (mtype src1) (elem_at h4 window i j * elem_at h4 src2 i j)"
      using f2 ptr wsz sz by simp_all
    have r: "h5 = h5'" "q1 = src1" "q2 = src2"
      using win r3 False m1 m2 g1(1) g2(1) by (auto simp: applyWindow_def)
    have a: ?A using r sz MN by simp
    have "elem_at h5 q1 i j = elem (mtype src1) (buffers h4 (data src1)) i j"
      using r g2(2) [of "data src1"] ptr by (simp add: elem_at_def)
    then have b: ?B
      using g1(3) [of i j] False wsz MN i j by simp
    have "elem_at h5 q2 i j = elem (mtype src1) (buffers h5' (data src2)) i j"
      using r sz by (simp add: elem_at_def)
    also have "\<dots> = rounded (mtype src1) (elem_at h4 window i j * elem_at h4 src2 i j)"
      by (rule g2(3))
    also have "elem_at h4 window i j = elem_at h window i j"
      using g1(2) [of "data window"] wptr by (simp add: elem_at_def)
    also have "elem_at h4 src2 i j = elem_at h src2 i j"
      using g1(2) [of "data src2"] ptr by (simp add: elem_at_def)
    finally have c: ?C
      using False wsz sz MN i j by simp
    from a b c show ?thesis by blast
  qed
  then show ?A and ?B and ?C by blast+
qed

lemma phaseCorr_prepared:
  assumes pre: "phaseCorr_precondition src1 src2 window"
    and M: "M = getOptimalDFTSize ops (rows src1)"
    and N: "N = getOptimalDFTSize ops (cols src1)"
    and nz: "M * N \<noteq> 0"
    and sep: "separate_buffers h src1 src2 window"
    and pad: "padInputs ops h src1 src2 window = (h3, padded1, padded2, paddedWin)"
    and win: "applyWindow h3 paddedWin padded1 padded2 = (h5, q1, q2)"
  shows "rows q1 = M \<and> cols q1 = N"
    and "mat_elements h5 q1 = preparedPatch h src1 window M N"
    and "mat_elements h5 q2 = preparedPatch h src2 window M N"
proof -
  have sz: "mtype src2 = mtype src1"
    using pre by (auto simp: phaseCorr_precondition_def)
  have all: "(rows q1 = M \<and> cols q1 = N \<and> mtype q1 = mtype src1
         \<and> rows q2 = M \<and> cols q2 = N \<and> mtype q2 = mtype src1)
    \<and> elem_at h5 q1 i j =
           (if mat_empty window
            then (if i < rows src1 \<and> j < cols src1 then elem_at h src1 i j else 0)
            else rounded (mtype src1)
                   ((if i < rows window \<and> j < cols window then elem_at h window i j else 0)
                    * (if i < rows src1 \<and> j < cols src1 then elem_at h src1 i j else 0)))
    \<and> elem_at h5 q2 i j =
           (if mat_empty window
            then (if i < rows src2 \<and> j < cols src2 then elem_at h src2 i j else 0)
            else rounded (mtype src2)
                   ((if i < rows window \<and> j < cols window then elem_at h window i j else 0)
                    * (if i < rows src2 \<and> j < cols src2 then elem_at h src2 i j else 0)))"
    if "0 \<le> i" "i < M" "0 \<le> j" "j < N" for i j
  proof (cases "M \<noteq> rows src1 \<or> N \<noteq> cols src1")
    case True
    from prepared_padded [OF pre M N nz sep pad win True that(1) that(3)]
    show ?thesis by blast
  next
    case False
    from prepared_in_place [OF pre M N sep pad win False that(2) that(4)]
    show ?thesis by blast
  qed
  have dims: "rows q1 = M \<and> cols q1 = N \<and> mtype q1 = mtype src1
         \<and> rows q2 = M \<and> cols q2 = N \<and> mtype q2 = mtype src1"
  proof (cases "M \<noteq> rows src1 \<or> N \<noteq> cols src1")
    case True
    from prepared_padded(1) [OF pre M N nz sep pad win True, of 0 0]
    show ?thesis by simp
  next
    case False
    then have "h3 = h" "padded1 = src1" "padded2 = src2" "paddedWin = window"
      using pad M N by (auto simp: padInputs_def Let_def)
    then show ?thesis
      using win False pre
      by (auto simp: applyWindow_def multiply_def create_def Let_def phaseCorr_precondition_def
          split: if_splits)
  qed
  then show "rows q1 = M \<and> cols q1 = N" by simp
  show "mat_elements h5 q1 = preparedPatch h src1 window M N"
    using dims all
    by (auto simp: mat_elements_def elements_def preparedPatch_def Let_def elem_at_def)
  show "mat_elements h5 q2 = preparedPatch h src2 window M N"
    using dims all sz
    by (auto simp: mat_elements_def elements_def preparedPatch_def Let_def elem_at_def)
qed

subsection \<open>The two candidates and the response\<close>

lemma locatePeaks_eq:
  "locatePeaks ops t M N C response =
     (fst (weightedCentroid ops (elements t M N C) (maxLoc ops (elements t M N C)) (5, 5)),
      fst (weightedCentroid ops (elements t M N (zero_at C (maxLoc ops (elements t M N C))))
             (maxLoc ops (elements t M N (zero_at C (maxLoc ops (elements t M N C))))) (5, 5)),
      map_option
        (\<lambda>_. snd (weightedCentroid ops (elements t M N (zero_at C (maxLoc ops (elements t M N C))))
             (maxLoc ops (elements t M N (zero_at C (maxLoc ops (elements t M N C))))) (5, 5)))
        response)"
  by (simp add: locatePeaks_def Let_def split_beta option.map_comp comp_def)

text \<open>
  The result of an accepted call on patches and a window in buffers of their own: the
  two shifts, and in \<^verbatim>\<open>*response\<close> what the second call of \<^verbatim>\<open>weightedCentroid\<close>
  stored, divided by \<open>M * N\<close>.
\<close>

lemma phaseCorr_result:
  assumes pre: "phaseCorr_precondition src1 src2 window"
    and M: "M = getOptimalDFTSize ops (rows src1)"
    and N: "N = getOptimalDFTSize ops (cols src1)"
    and nz: "M * N \<noteq> 0"
    and sep: "separate_buffers h src1 src2 window"
    and C: "C = encode (mtype src1)
                  (correlationSurface ops (preparedPatch h src1 window M N)
                     (preparedPatch h src2 window M N))"
    and peak1: "peak1 = maxLoc ops (elements (mtype src1) M N C)"
    and peak2: "peak2 = maxLoc ops (elements (mtype src1) M N (zero_at C peak1))"
    and center: "center = Point2f (real_of_int N / 2) (real_of_int M / 2)"
  shows "\<exists>h'. phaseCorr ops h src1 src2 window response =
      Inr (h',
           [point_minus center
              (fst (weightedCentroid ops (elements (mtype src1) M N C) peak1 (5, 5))),
            point_minus center
              (fst (weightedCentroid ops (elements (mtype src1) M N (zero_at C peak1)) peak2
                      (5, 5)))],
           map_option
             (\<lambda>_. snd (weightedCentroid ops (elements (mtype src1) M N (zero_at C peak1)) peak2
                          (5, 5)) / real_of_int (M * N))
             response)"
proof -
  obtain h3 padded1 padded2 paddedWin
    where pad: "padInputs ops h src1 src2 window = (h3, padded1, padded2, paddedWin)"
    by (cases "padInputs ops h src1 src2 window") auto
  obtain h5 q1 q2 where win: "applyWindow h3 paddedWin padded1 padded2 = (h5, q1, q2)"
    by (cases "applyWindow h3 paddedWin padded1 padded2") auto
  note prep = phaseCorr_prepared [OF pre M N nz sep pad win]
  have guards: "mtype src1 = mtype src2" "mtype src1 = CV_32FC1 \<or> mtype src1 = CV_64FC1"
    "same_size src1 src2" "\<not> (\<not> mat_empty window \<and> mtype src1 \<noteq> mtype window)"
    "\<not> (\<not> mat_empty window \<and> \<not> same_size src1 window)"
    using pre by (auto simp: phaseCorr_precondition_def same_size_def)
  have "phaseCorr ops h src1 src2 window response =
      Inr (h5,
           [point_minus center (fst (locatePeaks ops (mtype src1) M N C response)),
            point_minus center (fst (snd (locatePeaks ops (mtype src1) M N C response)))],
           map_option (\<lambda>v. v / real_of_int (M * N))
              (snd (snd (locatePeaks ops (mtype src1) M N C response))))"
    unfolding phaseCorr_def using guards pad win prep M N C center
    by (simp add: Let_def split_beta)
  then show ?thesis
    by (simp add: locatePeaks_eq peak1 peak2 option.map_comp comp_def)
qed

lemma impulse_elements:
  "a = 1 \<or> a = 2 \<Longrightarrow> mat_elements impulse_memory (mat_2x2 a) = [[1, 0], [0, 0]]"
  by (auto simp: mat_elements_def elements_def elem_def impulse_memory_def mat_2x2_def
      upto_0_1 float_enc_values float_val_values float_val_0 CV_32FC1_def CV_64FC1_def)

lemma impulse_positions: "positions [[1, 0], [0, 0]] = [(0, 0), (0, 1), (1, 0), (1, 1)]"
  by (simp add: positions_def width_def upto_0_1)

lemma impulse_dft: "dftCoefficient [[1, 0], [0, 0]] u v = 1"
  by (simp add: dftCoefficient_def impulse_positions value_at_def)

lemma impulse_surface:
  "specCorrelationSurface [[1, 0], [0, 0]] [[1, 0], [0, 0]] 0 0 = 0"
  "specCorrelationSurface [[1, 0], [0, 0]] [[1, 0], [0, 0]] 0 1 = 0"
  "specCorrelationSurface [[1, 0], [0, 0]] [[1, 0], [0, 0]] 1 0 = 0"
  "specCorrelationSurface [[1, 0], [0, 0]] [[1, 0], [0, 0]] 1 1 = 4"
  by (simp_all add: specCorrelationSurface_def Let_def impulse_positions impulse_dft
      phaseOnly_def width_def)

lemma impulse_surface_elements:
  "elements CV_32FC1 2 2
     (encode CV_32FC1 (specCorrelationSurface [[1, 0], [0, 0]] [[1, 0], [0, 0]]))
   = [[0, 0], [0, 4]]"
  by (simp add: elements_def elem_def encode_def upto_0_1 impulse_surface float_enc_0
      float_enc_values float_val_values float_val_0 CV_32FC1_def CV_64FC1_def)

lemma impulse_suppressed_elements:
  "elements CV_32FC1 2 2
     (zero_at (encode CV_32FC1 (specCorrelationSurface [[1, 0], [0, 0]] [[1, 0], [0, 0]])) (1, 1))
   = [[0, 0], [0, 0]]"
  by (simp add: elements_def elem_def encode_def zero_at_def upto_0_1 impulse_surface float_enc_0
      float_enc_values float_val_values float_val_0 CV_32FC1_def CV_64FC1_def)

lemma impulse_peaks:
  "firstMaxLoc [[0, 0], [0, 4]] = (1, 1)"
  "firstMaxLoc [[0, 0], [0, 0]] = (0, 0)"
  by (simp_all add: firstMaxLoc_def positions_def width_def value_at_def upto_0_1)

lemma impulse_centroids:
  "specWeightedCentroid [[0, 0], [0, 4]] (1, 1) (5, 5) = (Point2f 1 1, 4)"
  "specWeightedCentroid [[0, 0], [0, 0]] (0, 0) (5, 5) = (Point2f 0 0, 0)"
  by (simp_all add: specWeightedCentroid_def width_def value_at_def upto_0_1 Let_def)

lemma mat_2x2_fields:
  "rows (mat_2x2 a) = 2" "cols (mat_2x2 a) = 2" "mtype (mat_2x2 a) = CV_32FC1" "data (mat_2x2 a) = a"
  by (simp_all add: mat_2x2_def)

lemma phaseCorr_impulse:
  "phaseCorr example_ops impulse_memory (mat_2x2 1) (mat_2x2 2) no_mat (Some 7)
     = Inr (impulse_memory, [Point2f 0 0, Point2f 1 1], Some 0)"
  by (simp add: phaseCorr_def padInputs_def applyWindow_def locatePeaks_def example_ops_def
      no_mat_def mat_empty_def same_size_def Let_def impulse_elements
      impulse_surface_elements impulse_suppressed_elements impulse_peaks impulse_centroids
      point_minus_def mat_2x2_fields CV_codes)

lemma impulse_prepared:
  "a = 1 \<or> a = 2 \<Longrightarrow> preparedPatch impulse_memory (mat_2x2 a) no_mat 2 2 = [[1, 0], [0, 0]]"
  by (auto simp: preparedPatch_def elem_at_def elem_def impulse_memory_def mat_2x2_def
      no_mat_def mat_empty_def upto_0_1 float_enc_values float_val_values float_val_0
      CV_32FC1_def CV_64FC1_def)

lemma impulse_call:
  "phaseCorr_precondition (mat_2x2 1) (mat_2x2 2) no_mat"
  "separate_buffers impulse_memory (mat_2x2 1) (mat_2x2 2) no_mat"
  "(2::int) = getOptimalDFTSize example_ops (rows (mat_2x2 1))"
  "(2::int) = getOptimalDFTSize example_ops (cols (mat_2x2 1))"
  by (simp_all add: phaseCorr_precondition_def separate_buffers_def mat_2x2_def mat_empty_def
      no_mat_def impulse_memory_def example_ops_def CV_32FC1_def)

text \<open>
  Claim C4, as stated, gives each of the two candidates a response score of its own,
  its peak value divided by rows x cols of the padded size. The code has one
  \<^verbatim>\<open>response\<close> pointer, passed to both calls of \<^verbatim>\<open>weightedCentroid\<close>, and returns the
  two displacements only. Take two equal 2 x 2 patches of 32-bit floats, 1 at row 0,
  column 0 and 0 elsewhere, with the phase correlation of the specification: the
  surface is 0 but for the peak 4 at its centre, row 1, column 1, so the score of
  the primary candidate is 4 / (2 x 2) = 1. The call returns the displacements (0, 0)
  and (1, 1) and leaves the single value 0 behind the pointer: the primary score 1
  is not produced.
\<close>

theorem phaseCorr_single_response_counterexample:
  "phaseCorr example_ops impulse_memory (mat_2x2 1) (mat_2x2 2) no_mat (Some 7)
     = Inr (impulse_memory, [Point2f 0 0, Point2f 1 1], Some 0)
   \<and> elements CV_32FC1 2 2
       (encode CV_32FC1
          (correlationSurface example_ops (mat_elements impulse_memory (mat_2x2 1))
             (mat_elements impulse_memory (mat_2x2 2))))
       = [[0, 0], [0, 4]]
   \<and> maxLoc example_ops [[0, 0], [0, 4]] = (1, 1)
   \<and> Some (0::real) \<noteq> Some (4 / (2 * 2))"
  using phaseCorr_impulse impulse_elements [of 1] impulse_elements [of 2]
    impulse_surface_elements impulse_peaks
  by (simp add: example_ops_def)

text \<open>
  Claim C4, amended. Take a patch pair accepted by \<^verbatim>\<open>phaseCorr\<close>, the patches and a
  supplied window in allocated buffers of their own, and a padded size M x N that is
  not zero. The surface is the phase correlation of the two patches padded with zeros
  to M x N and, when a window is supplied, multiplied by the window. The call returns
  exactly two displacements: the centre (N / 2, M / 2) minus the centroid of the 5 x 5
  neighbourhood of the primary peak, the maximum of the surface, and the centre minus
  the centroid of the 5 x 5 neighbourhood of the secondary peak, the maximum of the
  surface after the write at the primary peak. It produces one response value, not
  one per candidate, and only when the pointer is not null. For 32-bit floats the
  write sets the element at the primary peak to 0 and changes no other element.
\<close>

theorem phaseCorr_two_displacements_one_response:
  assumes pre: "phaseCorr_precondition src1 src2 window"
    and M: "M = getOptimalDFTSize ops (rows src1)"
    and N: "N = getOptimalDFTSize ops (cols src1)"
    and nz: "M * N \<noteq> 0"
    and sep: "separate_buffers h src1 src2 window"
    and C: "C = encode (mtype src1)
                  (correlationSurface ops (preparedPatch h src1 window M N)
                     (preparedPatch h src2 window M N))"
    and peak1: "peak1 = maxLoc ops (elements (mtype src1) M N C)"
    and peak2: "peak2 = maxLoc ops (elements (mtype src1) M N (zero_at C peak1))"
    and center: "center = Point2f (real_of_int N / 2) (real_of_int M / 2)"
  shows "\<exists>h' score. phaseCorr ops h src1 src2 window response =
      Inr (h',
           [point_minus center
              (fst (weightedCentroid ops (elements (mtype src1) M N C) peak1 (5, 5))),
            point_minus center
              (fst (weightedCentroid ops (elements (mtype src1) M N (zero_at C peak1)) peak2
                      (5, 5)))],
           score)
      \<and> (score = None \<longleftrightarrow> response = None)
      \<and> (mtype src1 = CV_32FC1 \<longrightarrow>
           (\<forall>i j. elem (mtype src1) (zero_at C peak1) i j
                    = (if i = snd peak1 \<and> j = fst peak1 then 0 else elem (mtype src1) C i j)))"
proof -
  from phaseCorr_result [OF pre M N nz sep C peak1 peak2 center, of response]
  obtain h' where "phaseCorr ops h src1 src2 window response =
      Inr (h',
           [point_minus center
              (fst (weightedCentroid ops (elements (mtype src1) M N C) peak1 (5, 5))),
            point_minus center
              (fst (weightedCentroid ops (elements (mtype src1) M N (zero_at C peak1)) peak2
                      (5, 5)))],
           map_option
             (\<lambda>_. snd (weightedCentroid ops (elements (mtype src1) M N (zero_at C peak1)) peak2
                          (5, 5)) / real_of_int (M * N))
             response)"
    by blast
  then show ?thesis
    by (auto simp: zero_at_float)
qed

theorem phaseCorr_two_displacements_one_response_witness:
  "phaseCorr_precondition (mat_2x2 1) (mat_2x2 2) no_mat
   \<and> separate_buffers impulse_memory (mat_2x2 1) (mat_2x2 2) no_mat
   \<and> (2::int) * 2 \<noteq> 0
   \<and> (\<exists>h' score. phaseCorr example_ops impulse_memory (mat_2x2 1) (mat_2x2 2) no_mat (Some 7)
                    = Inr (h', [Point2f 0 0, Point2f 1 1], score)
                  \<and> score \<noteq> None)"
proof -
  have nz: "(2::int) * 2 \<noteq> 0" by simp
  from phaseCorr_two_displacements_one_response
    [OF impulse_call(1) impulse_call(3) impulse_call(4) nz impulse_call(2) refl refl refl refl,
      of "Some 7"]
  have "\<exists>h' score. phaseCorr example_ops impulse_memory (mat_2x2 1) (mat_2x2 2) no_mat (Some 7)
                    = Inr (h', [Point2f 0 0, Point2f 1 1], score)
                  \<and> score \<noteq> None"
    by (simp add: example_ops_def impulse_prepared impulse_surface_elements
        impulse_suppressed_elements impulse_peaks impulse_centroids point_minus_def
        mat_2x2_fields) blast
  with impulse_call(1,2) nz show ?thesis by blast
qed

subsection \<open>The input buffers\<close>

text \<open>
  Claim C5. The specification has the frame and patch buffers read-only during
  estimation, also for \<^verbatim>\<open>phaseCorr\<close> with a window and patches that already have the
  optimal DFT size. There the code assigns \<^verbatim>\<open>padded1 = src1\<close> and
  \<^verbatim>\<open>padded2 = src2\<close>, which shares the buffers, and \<^verbatim>\<open>multiply\<close> then writes the
  windowed values into them. With 2 x 2 patches of value 2 and 4 and a window of value
  1/2, the patches hold 1 and 2 when the call returns. (When the patches are padded,
  or no window is given, the inputs are left as they were, as the lemmas after the
  theorem show; \<^verbatim>\<open>calcSAD\<close> returns a number and writes no buffer.)
\<close>

theorem phaseCorr_window_overwrites_inputs:
  "(case phaseCorr example_ops example_memory (mat_2x2 1) (mat_2x2 2) (mat_2x2 3) None of
      Inl e \<Rightarrow> False
    | Inr (h', ds, r) \<Rightarrow>
        at_float example_memory (mat_2x2 1) 0 0 = 2 \<and> at_float h' (mat_2x2 1) 0 0 = 1
        \<and> at_float example_memory (mat_2x2 2) 0 0 = 4 \<and> at_float h' (mat_2x2 2) 0 0 = 2)"
  by (simp add: phaseCorr_def padInputs_def applyWindow_def multiply_def create_def store_def
      example_ops_def example_memory_def mat_2x2_def mat_empty_def same_size_def CV_32FC1_def
      CV_64FC1_def Let_def split_beta at_float_def encode_def elem_def float_enc_values
      float_val_values)

text \<open>What the call does to the memory, in general.\<close>

lemma create_effect:
  assumes "create h dst r c t = (h1, dst1)"
  shows "buffers h1 = buffers h"
    and "next_free h \<le> next_free h1"
    and "data dst1 = data dst \<or> data dst1 = next_free h"
    and "data dst = 0 \<Longrightarrow> data dst1 = next_free h"
  using assms by (auto simp: create_def split: if_splits)

lemma copyMakeBorder_effect:
  assumes "copyMakeBorder h src no_mat t b l r = (h1, dst1)"
  shows "data dst1 = next_free h"
    and "next_free h \<le> next_free h1"
    and "a \<noteq> next_free h \<Longrightarrow> buffers h1 a = buffers h a"
  using assms
  by (auto simp: copyMakeBorder_def Let_def store_def no_mat_def create_def split: prod.splits)

lemma multiply_effect:
  assumes "multiply h a b dst = (h1, dst1)"
  shows "data dst1 = data dst \<or> data dst1 = next_free h"
    and "next_free h \<le> next_free h1"
    and "x \<noteq> data dst1 \<Longrightarrow> buffers h1 x = buffers h x"
  using assms
  by (auto simp: multiply_def Let_def store_def create_def split: prod.splits if_splits)

lemma padInputs_padding_effect:
  assumes pad: "padInputs ops h src1 src2 window = (h3, padded1, padded2, paddedWin)"
    and differs: "getOptimalDFTSize ops (rows src1) \<noteq> rows src1
                  \<or> getOptimalDFTSize ops (cols src1) \<noteq> cols src1"
  shows "next_free h \<le> data padded1" and "next_free h \<le> data padded2"
    and "next_free h \<le> next_free h3"
    and "a < next_free h \<Longrightarrow> buffers h3 a = buffers h a"
proof -
  let ?M = "getOptimalDFTSize ops (rows src1)" and ?N = "getOptimalDFTSize ops (cols src1)"
  obtain h1 p1 where c1: "copyMakeBorder h src1 no_mat 0 (?M - rows src1) 0 (?N - cols src1) = (h1, p1)"
    by (cases "copyMakeBorder h src1 no_mat 0 (?M - rows src1) 0 (?N - cols src1)") auto
  obtain h2 p2 where c2: "copyMakeBorder h1 src2 no_mat 0 (?M - rows src2) 0 (?N - cols src2) = (h2, p2)"
    by (cases "copyMakeBorder h1 src2 no_mat 0 (?M - rows src2) 0 (?N - cols src2)") auto
  obtain h3' pw where c3: "copyMakeBorder h2 window no_mat 0 (?M - rows window) 0 (?N - cols window) = (h3', pw)"
    by (cases "copyMakeBorder h2 window no_mat 0 (?M - rows window) 0 (?N - cols window)") auto
  note e1 = copyMakeBorder_effect [OF c1] and e2 = copyMakeBorder_effect [OF c2]
    and e3 = copyMakeBorder_effect [OF c3]
  have res: "padded1 = p1" "padded2 = p2" "h3 = (if \<not> mat_empty window then h3' else h2)"
    using pad differs c1 c2 c3 by (auto simp: padInputs_def Let_def split: if_splits)
  show "next_free h \<le> data padded1" using res e1 by simp
  show "next_free h \<le> data padded2" using res e1 e2 by simp
  show "next_free h \<le> next_free h3" using res e1 e2 e3 by auto
  show "buffers h3 a = buffers h a" if "a < next_free h"
    using that res e1(2) e1(3) [of a] e2(2) e2(3) [of a] e3(3) [of a] by auto
qed

lemma applyWindow_effect:
  assumes win: "applyWindow h paddedWin padded1 padded2 = (h5, q1, q2)"
    and "a \<noteq> data padded1" and "a \<noteq> data padded2" and "a < next_free h"
  shows "buffers h5 a = buffers h a"
proof (cases "mat_empty paddedWin")
  case True
  with win show ?thesis by (simp add: applyWindow_def)
next
  case False
  obtain h1 r1 where m1: "multiply h paddedWin padded1 padded1 = (h1, r1)"
    by (cases "multiply h paddedWin padded1 padded1") auto
  obtain h2 r2 where m2: "multiply h1 paddedWin padded2 padded2 = (h2, r2)"
    by (cases "multiply h1 paddedWin padded2 padded2") auto
  have "h5 = h2" using win False m1 m2 by (simp add: applyWindow_def)
  moreover have "buffers h1 a = buffers h a"
    using multiply_effect(1) [OF m1] multiply_effect(3) [OF m1, of a] assms(2,4) by auto
  moreover have "buffers h2 a = buffers h1 a"
    using multiply_effect(1) [OF m2] multiply_effect(3) [OF m2, of a] multiply_effect(2) [OF m1]
      assms(3,4) by auto
  ultimately show ?thesis by simp
qed

lemma phaseCorr_memory:
  assumes "phaseCorr ops h src1 src2 window response = Inr (h', ds, r)"
  shows "\<exists>h3 padded1 padded2 paddedWin q1 q2.
           padInputs ops h src1 src2 window = (h3, padded1, padded2, paddedWin)
           \<and> applyWindow h3 paddedWin padded1 padded2 = (h', q1, q2)"
proof -
  obtain h3 padded1 padded2 paddedWin
    where pad: "padInputs ops h src1 src2 window = (h3, padded1, padded2, paddedWin)"
    by (cases "padInputs ops h src1 src2 window") auto
  obtain h5 q1 q2 where win: "applyWindow h3 paddedWin padded1 padded2 = (h5, q1, q2)"
    by (cases "applyWindow h3 paddedWin padded1 padded2") auto
  have "h' = h5"
    using assms pad win
    by (simp add: phaseCorr_def Let_def split_beta split: if_splits)
  with pad win show ?thesis by blast
qed

lemma phaseCorr_padding_keeps_inputs:
  assumes run: "phaseCorr ops h src1 src2 window response = Inr (h', ds, r)"
    and differs: "getOptimalDFTSize ops (rows src1) \<noteq> rows src1
                  \<or> getOptimalDFTSize ops (cols src1) \<noteq> cols src1"
    and a: "a < next_free h"
  shows "buffers h' a = buffers h a"
proof -
  from phaseCorr_memory [OF run] obtain h3 padded1 padded2 paddedWin q1 q2
    where pad: "padInputs ops h src1 src2 window = (h3, padded1, padded2, paddedWin)"
      and win: "applyWindow h3 paddedWin padded1 padded2 = (h', q1, q2)"
    by blast
  note p = padInputs_padding_effect [OF pad differs]
  have "buffers h' a = buffers h3 a"
    using applyWindow_effect [OF win, of a] p(1,2,3) a by auto
  with p(4) [OF a] show ?thesis by simp
qed

lemma phaseCorr_without_window_keeps_inputs:
  assumes run: "phaseCorr ops h src1 src2 window response = Inr (h', ds, r)"
    and nowin: "mat_empty window"
    and a: "a < next_free h"
  shows "buffers h' a = buffers h a"
proof (cases "getOptimalDFTSize ops (rows src1) \<noteq> rows src1
              \<or> getOptimalDFTSize ops (cols src1) \<noteq> cols src1")
  case True
  then show ?thesis by (rule phaseCorr_padding_keeps_inputs [OF run _ a])
next
  case False
  from phaseCorr_memory [OF run] obtain h3 padded1 padded2 paddedWin q1 q2
    where pad: "padInputs ops h src1 src2 window = (h3, padded1, padded2, paddedWin)"
      and win: "applyWindow h3 paddedWin padded1 padded2 = (h', q1, q2)"
    by blast
  from pad False have "h3 = h" "paddedWin = window"
    by (auto simp: padInputs_def Let_def)
  with win nowin show ?thesis by (simp add: applyWindow_def)
qed

lemma phaseCorr_window_in_place:
  assumes run: "phaseCorr ops h src1 src2 window response = Inr (h', ds, r)"
    and same: "getOptimalDFTSize ops (rows src1) = rows src1"
              "getOptimalDFTSize ops (cols src1) = cols src1"
    and win: "\<not> mat_empty window"
    and ptrs: "data src1 \<noteq> 0" "data src2 \<noteq> 0" "data src1 \<noteq> data src2"
              "data window \<noteq> data src1" "data window \<noteq> data src2"
  shows "buffers h' (data src1)
           = encode (mtype src1) (\<lambda>i j. elem_at h window i j * elem_at h src1 i j)"
    and "buffers h' (data src2)
           = encode (mtype src2) (\<lambda>i j. elem_at h window i j * elem_at h src2 i j)"
proof -
  from phaseCorr_memory [OF run] obtain h3 padded1 padded2 paddedWin q1 q2
    where pad: "padInputs ops h src1 src2 window = (h3, padded1, padded2, paddedWin)"
      and aw: "applyWindow h3 paddedWin padded1 padded2 = (h', q1, q2)"
    by blast
  from pad same have eq: "h3 = h" "padded1 = src1" "padded2 = src2" "paddedWin = window"
    by (auto simp: padInputs_def Let_def)
  have pre: "same_size src1 src2" "mtype src1 = mtype src2" "same_size src1 window"
    "mtype src1 = mtype window"
    using run win by (auto simp: phaseCorr_def split: if_splits)
  have "h' = store (store h (data src1)
              (encode (mtype src1) (\<lambda>i j. elem_at h window i j * elem_at h src1 i j)))
            (data src2)
              (encode (mtype src2) (\<lambda>i j. elem_at h window i j * elem_at h src2 i j))"
    using aw win pre ptrs unfolding eq
    by (auto simp: applyWindow_def multiply_def create_def store_def same_size_def Let_def
        elem_at_def)
  then show "buffers h' (data src1)
           = encode (mtype src1) (\<lambda>i j. elem_at h window i j * elem_at h src1 i j)"
    and "buffers h' (data src2)
           = encode (mtype src2) (\<lambda>i j. elem_at h window i j * elem_at h src2 i j)"
    using ptrs by (simp_all add: store_def)
qed

section \<open>Properties of the element type\<close>

text \<open>
  The examples on doubles: a 1 x 2 surface, and the call of \<^verbatim>\<open>phaseCorr\<close> on the 1 x 1
  patches 1.0 and 5.0.
\<close>

lemma f64_surface:
  "elements CV_64FC1 1 2 surface_f64 = [[1, 5]]"
  "elements CV_64FC1 1 2 (zero_at surface_f64 (1, 0)) = [[0, 5]]"
  by (simp_all add: elements_def elem_def surface_f64_def zero_at_def upto_0_1 upto_0_0
      double_val_values)

lemma f64_peak: "firstMaxLoc [[1, 5]] = (1, 0)"
  by (simp add: firstMaxLoc_def positions_def width_def value_at_def upto_0_1 upto_0_0)

lemma doubles_accepted:
  "phaseCorr_precondition (mat_1x1_f64 1) (mat_1x1_f64 2) no_mat"
  by (simp add: phaseCorr_precondition_def mat_1x1_f64_def no_mat_def mat_empty_def)

lemma double_enc_values: "double_lo 1 = 0" "double_hi 1 = 0x3FF00000"
  by (simp_all add: double_lo_def double_hi_def ieee_enc_def Let_def round_even_def)

lemma doubles_elements:
  "a = 1 \<or> a = 2 \<Longrightarrow> mat_elements memory_1x1_f64 (mat_1x1_f64 a) = [[if a = 1 then 1 else 5]]"
  by (auto simp: mat_elements_def elements_def elem_def mat_1x1_f64_def memory_1x1_f64_def
      upto_0_0 double_val_values)

lemma doubles_surface:
  "specCorrelationSurface [[1]] [[5]] 0 0 = 1"
  by (simp add: specCorrelationSurface_def dftCoefficient_def positions_def width_def
      value_at_def upto_0_0 phaseOnly_def Let_def)

lemma doubles_surface_elements:
  "elements CV_64FC1 1 1 (encode CV_64FC1 (specCorrelationSurface [[1]] [[5]])) = [[1]]"
  "elements CV_64FC1 1 1
     (zero_at (encode CV_64FC1 (specCorrelationSurface [[1]] [[5]])) (0, 0)) = [[1]]"
  by (simp_all add: elements_def elem_def encode_def zero_at_def upto_0_0 doubles_surface
      double_enc_values double_val_values)

lemma doubles_peak:
  "firstMaxLoc [[1]] = (0, 0)"
  "specWeightedCentroid [[1]] (0, 0) (5, 5) = (Point2f 0 0, 1)"
  by (simp_all add: firstMaxLoc_def specWeightedCentroid_def positions_def width_def value_at_def
      upto_0_0 Let_def)

lemma mat_1x1_f64_fields:
  "rows (mat_1x1_f64 a) = 1" "cols (mat_1x1_f64 a) = 1" "mtype (mat_1x1_f64 a) = CV_64FC1"
  "data (mat_1x1_f64 a) = a"
  by (simp_all add: mat_1x1_f64_def)

lemma phaseCorr_doubles:
  "phaseCorr example_ops memory_1x1_f64 (mat_1x1_f64 1) (mat_1x1_f64 2) no_mat (Some 7)
     = Inr (memory_1x1_f64, [Point2f (1 / 2) (1 / 2), Point2f (1 / 2) (1 / 2)], Some 1)"
  by (simp add: phaseCorr_def padInputs_def applyWindow_def locatePeaks_def example_ops_def
      no_mat_def mat_empty_def same_size_def Let_def doubles_elements
      doubles_surface_elements doubles_peak point_minus_def mat_1x1_f64_fields CV_codes)

lemma f64_peak2: "firstMaxLoc [[0, 5]] = (1, 0)"
  by (simp add: firstMaxLoc_def positions_def width_def value_at_def upto_0_1 upto_0_0)

text \<open>
  Claim C10. \<^verbatim>\<open>calcSAD\<close> reads both matrices through \<^verbatim>\<open>at<float>\<close> and \<^verbatim>\<open>phaseCorr\<close>
  zeroes the primary peak through \<^verbatim>\<open>at<float>\<close>, and their assertions admit 32-bit
  floats and doubles alike. On 32-bit floats the cost is the element-wise cost of
  the specification, and the write sets the element at the peak to 0 and changes no
  other element. On doubles neither holds in general. For the 1 x 1 block 1.0 and the
  1 x 1 frame 5.0, which \<^verbatim>\<open>calcSAD\<close> accepts, the call returns 0 and the element-wise
  cost is 4. \<^verbatim>\<open>phaseCorr\<close> accepts the same pair as patches: the surface is the single
  element 1.0, the write hits the low half of that double, the peak is still 1.0
  afterwards and the second candidate is the first again. On a 1 x 2 surface of
  doubles 1.0, 5.0, whose peak is at column 1, the write hits the high half of the
  element at column 0: the peak 5.0 stays, the second search finds it again, and the
  element at column 0 becomes 0.
\<close>

theorem at_float_is_elementwise_on_floats_only:
  "(mtype prevBlock = CV_32FC1 \<and> mtype curr_mat = CV_32FC1
      \<longrightarrow> calcSAD B h prevBlock rowpos colpos curr_mat dx dy
            = Inr (elementwiseCost B h prevBlock rowpos colpos curr_mat dx dy))
   \<and> (\<forall>i j. elem CV_32FC1 (zero_at C peakLoc) i j
               = (if i = snd peakLoc \<and> j = fst peakLoc then 0 else elem CV_32FC1 C i j))
   \<and> mtype (mat_1x1_f64 1) = CV_64FC1 \<and> mtype (mat_1x1_f64 2) = CV_64FC1
   \<and> calcSAD 16 memory_1x1_f64 (mat_1x1_f64 1) 0 0 (mat_1x1_f64 2) 0 0 = Inr 0
   \<and> elementwiseCost 16 memory_1x1_f64 (mat_1x1_f64 1) 0 0 (mat_1x1_f64 2) 0 0 = 4
   \<and> phaseCorr_precondition (mat_1x1_f64 1) (mat_1x1_f64 2) no_mat
   \<and> phaseCorr example_ops memory_1x1_f64 (mat_1x1_f64 1) (mat_1x1_f64 2) no_mat (Some 7)
       = Inr (memory_1x1_f64, [Point2f (1 / 2) (1 / 2), Point2f (1 / 2) (1 / 2)], Some 1)
   \<and> elements CV_64FC1 1 1
        (zero_at (encode CV_64FC1
                    (correlationSurface example_ops
                       (mat_elements memory_1x1_f64 (mat_1x1_f64 1))
                       (mat_elements memory_1x1_f64 (mat_1x1_f64 2))))
           (0, 0))
       = [[1]]
   \<and> elements CV_64FC1 1 2 surface_f64 = [[1, 5]]
   \<and> firstMaxLoc (elements CV_64FC1 1 2 surface_f64) = (1, 0)
   \<and> elements CV_64FC1 1 2 (zero_at surface_f64 (1, 0)) = [[0, 5]]
   \<and> firstMaxLoc (elements CV_64FC1 1 2 (zero_at surface_f64 (1, 0))) = (1, 0)"
  using doubles_1x1(3,4) doubles_accepted f64_surface f64_peak f64_peak2 phaseCorr_doubles
    doubles_surface_elements(2) doubles_elements [of 1] doubles_elements [of 2]
  by (simp add: calcSAD_elementwise zero_at_float mat_1x1_f64_def example_ops_def)

theorem at_float_is_elementwise_on_floats_only_witness:
  "mtype (mat_1x1 1) = CV_32FC1 \<and> mtype (mat_1x1 2) = CV_32FC1
   \<and> elementwiseCost 16 (memory_1x1 1 5) (mat_1x1 1) 0 0 (mat_1x1 2) 0 0 = 4
   \<and> calcSAD 16 (memory_1x1 1 5) (mat_1x1 1) 0 0 (mat_1x1 2) 0 0 = Inr 4"
  using at_float_is_elementwise_on_floats_only
    [of "mat_1x1 1" "mat_1x1 2" 16 "memory_1x1 1 5" 0 0 0 0]
  by (simp add: elementwiseCost_def mat_1x1_def memory_1x1_def elem_at_def elem_def CV_codes
      insideFrame_def targetRow_def targetCol_def c_round_simps float_enc_values float_val_values)

end
